theory Spec2Isabelle
  imports Complex_Main "HOL-Library.Word" "HOL-Library.Sublist"
begin

section \<open>Passport photo validation: data model\<close>

text \<open>
  The development follows the Python sources \<^verbatim>\<open>src/models/photo.py\<close>,
  \<^verbatim>\<open>src/validators/*.py\<close> and \<^verbatim>\<open>src/services/validation_service.py\<close>.
  Python floats are modelled as reals, Python ints as \<^typ>\<open>int\<close>, \<^verbatim>\<open>uint8\<close> pixels as
  \<^typ>\<open>8 word\<close>, dictionaries as association lists read with \<^const>\<open>map_of\<close>, and a raised
  exception as the left summand of a sum type.
\<close>

subsection \<open>Exceptions\<close>

datatype error =
    ValueError string
  | TypeError string
  | ZeroDivisionError string
  | Exception string

text \<open>Sequencing of fallible steps: the first exception propagates.\<close>

definition bindE :: "error + 'a \<Rightarrow> ('a \<Rightarrow> error + 'b) \<Rightarrow> error + 'b" where
  "bindE m f = (case m of Inl e \<Rightarrow> Inl e | Inr x \<Rightarrow> f x)"

text \<open>Python's true division \<^verbatim>\<open>a / b\<close> on floats and ints raises on a zero divisor.\<close>

definition truediv :: "real \<Rightarrow> real \<Rightarrow> error + real" where
  "truediv a b = (if b = 0 then Inl (ZeroDivisionError ''division by zero'') else Inr (a / b))"

subsection \<open>\<^verbatim>\<open>models/photo.py\<close>\<close>

datatype PhotoStatus = PENDING | APPROVED | REJECTED

text \<open>Values stored in a \<^verbatim>\<open>details\<close> dictionary.\<close>

datatype detail = DStr string | DNum real | DInt int | DBool bool

text \<open>Values stored in the \<^verbatim>\<open>landmarks\<close> dictionary of a detection result: a number or
  an \<^verbatim>\<open>(x, y, w, h)\<close> region.\<close>

datatype lm_value = LNum real | LRegion int int int int

record FaceDetectionResult =
  face_found :: bool
  detection_confidence :: real
  face_bbox :: "(int \<times> int \<times> int \<times> int) option"
  landmarks :: "(string \<times> lm_value) list option"

record ValidationResult =
  validator_name :: string
  is_valid :: bool
  confidence :: real
  message :: string
  details :: "(string \<times> detail) list option"

text \<open>\<^verbatim>\<open>ValidationResult.__post_init__\<close>: the dataclass constructor followed by the range
  check on the confidence.\<close>

definition ValidationResult_init ::
  "string \<Rightarrow> bool \<Rightarrow> real \<Rightarrow> string \<Rightarrow> (string \<times> detail) list option \<Rightarrow> error + ValidationResult" where
  "ValidationResult_init name valid conf msg det =
     (if \<not> (0 \<le> conf \<and> conf \<le> 1)
      then Inl (ValueError ''Confidence must be between 0.0 and 1.0'')
      else Inr \<lparr>validator_name = name, is_valid = valid, confidence = conf,
                message = msg, details = det\<rparr>)"

text \<open>An image is a grid of \<^verbatim>\<open>uint8\<close> pixels, given as its list of rows: two-dimensional
  (grayscale) or with three channels per pixel in BGR order.\<close>

datatype image =
    Gray "8 word list list"
  | Color "(8 word \<times> 8 word \<times> 8 word) list list"

text \<open>\<^verbatim>\<open>ndarray.size\<close>: the number of scalar entries.\<close>

fun img_size :: "image \<Rightarrow> nat" where
  "img_size (Gray rows) = sum_list (map length rows)"
| "img_size (Color rows) = 3 * sum_list (map length rows)"

text \<open>\<^verbatim>\<open>ndarray.shape[:2]\<close>: height and width.\<close>

fun img_height :: "image \<Rightarrow> nat" where
  "img_height (Gray rows) = length rows"
| "img_height (Color rows) = length rows"

fun img_width :: "image \<Rightarrow> nat" where
  "img_width (Gray rows) = (case rows of [] \<Rightarrow> 0 | r # _ \<Rightarrow> length r)"
| "img_width (Color rows) = (case rows of [] \<Rightarrow> 0 | r # _ \<Rightarrow> length r)"

record Photo =
  image_data :: "image option"
  timestamp :: nat
  photo_id :: "string option"
  status :: PhotoStatus
  validation_results :: "ValidationResult list"
  file_path :: "string option"
  metadata :: "(string \<times> string) list"

definition add_validation_result :: "Photo \<Rightarrow> ValidationResult \<Rightarrow> Photo" where
  "add_validation_result photo result =
     photo\<lparr>validation_results := validation_results photo @ [result]\<rparr>"

definition Photo_is_valid :: "Photo \<Rightarrow> bool" where
  "Photo_is_valid photo =
     (if validation_results photo = [] then False
      else list_all is_valid (validation_results photo))"

definition get_overall_confidence :: "Photo \<Rightarrow> error + real" where
  "get_overall_confidence photo =
     (if validation_results photo = [] then Inr 0
      else truediv (sum_list (map confidence (validation_results photo)))
                   (real (length (validation_results photo))))"

definition get_failed_validations :: "Photo \<Rightarrow> ValidationResult list" where
  "get_failed_validations photo = filter (\<lambda>r. \<not> is_valid r) (validation_results photo)"

definition update_status :: "Photo \<Rightarrow> Photo" where
  "update_status photo =
     (if Photo_is_valid photo then photo\<lparr>status := APPROVED\<rparr>
      else if validation_results photo \<noteq> [] then photo\<lparr>status := REJECTED\<rparr>
      else photo\<lparr>status := PENDING\<rparr>)"

definition get_face_center :: "FaceDetectionResult \<Rightarrow> (int \<times> int) option" where
  "get_face_center fd =
     (case face_bbox fd of
        None \<Rightarrow> None
      | Some (x, y, w, h) \<Rightarrow> Some (x + w div 2, y + h div 2))"

definition get_face_size :: "FaceDetectionResult \<Rightarrow> int option" where
  "get_face_size fd =
     (case face_bbox fd of
        None \<Rightarrow> None
      | Some (x, y, w, h) \<Rightarrow> Some (w * h))"

subsection \<open>\<^verbatim>\<open>validators/base_validator.py\<close>\<close>

record BaseValidator =
  threshold :: real

definition BaseValidator_init :: "real \<Rightarrow> error + BaseValidator" where
  "BaseValidator_init t =
     (if \<not> (0 \<le> t \<and> t \<le> 1)
      then Inl (ValueError ''Threshold must be between 0.0 and 1.0'')
      else Inr \<lparr>threshold = t\<rparr>)"

text \<open>The \<^verbatim>\<open>threshold\<close> property setter, inherited by every validator class. It returns the
  exception raised, if any, and the validator object as it is after the call.\<close>

definition threshold_setter ::
  "'a BaseValidator_scheme \<Rightarrow> real \<Rightarrow> error option \<times> 'a BaseValidator_scheme" where
  "threshold_setter v val =
     (if \<not> (0 \<le> val \<and> val \<le> 1)
      then (Some (ValueError ''Threshold must be between 0.0 and 1.0''), v)
      else (None, v\<lparr>threshold := val\<rparr>))"

text \<open>The four arguments a validator hands to \<^verbatim>\<open>_create_result\<close>.\<close>

type_synonym result_args = "bool \<times> real \<times> string \<times> (string \<times> detail) list option"

text \<open>\<^verbatim>\<open>_create_result\<close>, with \<^verbatim>\<open>self.get_name()\<close> as first argument.\<close>

definition create_result :: "string \<Rightarrow> result_args \<Rightarrow> error + ValidationResult" where
  "create_result name args =
     (case args of (valid, conf, msg, det) \<Rightarrow> ValidationResult_init name valid conf msg det)"

text \<open>\<^verbatim>\<open>_validate_image_data\<close>. The source returns nothing on success; the model hands back
  the image that was checked.\<close>

definition validate_image_data :: "Photo \<Rightarrow> error + image" where
  "validate_image_data photo =
     (case image_data photo of
        None \<Rightarrow> Inl (ValueError ''Photo has no image data'')
      | Some im \<Rightarrow>
          if img_size im = 0 then Inl (ValueError ''Photo image data is empty'') else Inr im)"

text \<open>\<^verbatim>\<open>_get_grayscale_image\<close>. The per-pixel conversion \<^verbatim>\<open>cv2.COLOR_BGR2GRAY\<close> belongs to
  OpenCV and is a parameter.\<close>

definition get_grayscale_image ::
  "(8 word \<times> 8 word \<times> 8 word \<Rightarrow> 8 word) \<Rightarrow> image \<Rightarrow> 8 word list list" where
  "get_grayscale_image bgr2gray im =
     (case im of Gray rows \<Rightarrow> rows | Color rows \<Rightarrow> map (map bgr2gray) rows)"

text \<open>\<^verbatim>\<open>ValidatorConfig\<close>: the constants the default constructors read.\<close>

definition BRIGHTNESS_MIN :: real where "BRIGHTNESS_MIN = 50"
definition BRIGHTNESS_MAX :: real where "BRIGHTNESS_MAX = 230"
definition BRIGHTNESS_THRESHOLD :: real where "BRIGHTNESS_THRESHOLD = 0.5"
definition SHARPNESS_MIN_VARIANCE :: real where "SHARPNESS_MIN_VARIANCE = 50"
definition SHARPNESS_THRESHOLD :: real where "SHARPNESS_THRESHOLD = 0.5"
definition FACE_CENTER_TOLERANCE :: real where "FACE_CENTER_TOLERANCE = 0.30"
definition FACE_SIZE_MIN_RATIO :: real where "FACE_SIZE_MIN_RATIO = 0.05"
definition FACE_SIZE_MAX_RATIO :: real where "FACE_SIZE_MAX_RATIO = 0.70"
definition FACE_POSITION_THRESHOLD :: real where "FACE_POSITION_THRESHOLD = 0.5"
definition EXPRESSION_THRESHOLD :: real where "EXPRESSION_THRESHOLD = 0.4"
definition MOUTH_OPEN_THRESHOLD :: real where "MOUTH_OPEN_THRESHOLD = 0.5"
definition EYE_VISIBILITY_THRESHOLD :: real where "EYE_VISIBILITY_THRESHOLD = 0.4"
definition EYE_ASPECT_RATIO_MIN :: real where "EYE_ASPECT_RATIO_MIN = 0.12"
definition REFLECTION_BRIGHTNESS_THRESHOLD :: int where "REFLECTION_BRIGHTNESS_THRESHOLD = 250"
definition REFLECTION_MAX_RATIO :: real where "REFLECTION_MAX_RATIO = 0.12"
definition REFLECTION_THRESHOLD :: real where "REFLECTION_THRESHOLD = 0.5"
definition SHADOW_DARKNESS_THRESHOLD :: int where "SHADOW_DARKNESS_THRESHOLD = 35"
definition SHADOW_MAX_RATIO :: real where "SHADOW_MAX_RATIO = 0.20"
definition SHADOW_THRESHOLD :: real where "SHADOW_THRESHOLD = 0.5"

text \<open>The interface \<^verbatim>\<open>IValidator\<close>: what the orchestrator sees of a validator object.\<close>

record IValidator =
  get_name :: string
  get_description :: string
  validate :: "Photo \<Rightarrow> FaceDetectionResult option \<Rightarrow> error + ValidationResult"

text \<open>The result every face-dependent validator returns without a detected face.\<close>

definition no_face_detected :: "string \<Rightarrow> string \<Rightarrow> error + ValidationResult" where
  "no_face_detected name msg =
     create_result name (False, 0, msg, Some [(''error'', DStr ''no_face_detected'')])"

subsection \<open>\<^verbatim>\<open>validators/brightness_validator.py\<close>\<close>

record BrightnessValidator = BaseValidator +
  min_brightness :: real
  max_brightness :: real

definition BrightnessValidator_init :: "real \<Rightarrow> real \<Rightarrow> real \<Rightarrow> error + BrightnessValidator" where
  "BrightnessValidator_init t mn mx =
     bindE (BaseValidator_init t)
       (\<lambda>b. Inr \<lparr>threshold = threshold b, min_brightness = mn, max_brightness = mx\<rparr>)"

text \<open>\<^verbatim>\<open>cv2.calcHist([gray], [0], None, [256], [0, 256])\<close>: how many pixels have each of the
  256 intensities.\<close>

definition calcHist :: "8 word list \<Rightarrow> real list" where
  "calcHist px = map (\<lambda>i. real (length (filter (\<lambda>p. unat p = i) px))) [0..<256]"

text \<open>The body of \<^verbatim>\<open>BrightnessValidator.validate\<close> from the grayscale conversion to the
  arguments of \<^verbatim>\<open>_create_result\<close>. The mean and the histogram normalisation divide by the
  number of pixels, which the image check has made non-zero.\<close>

definition brightness_scores ::
  "(8 word \<times> 8 word \<times> 8 word \<Rightarrow> 8 word) \<Rightarrow> BrightnessValidator \<Rightarrow> image \<Rightarrow> result_args" where
  "brightness_scores bgr2gray v im =
     (let gray = get_grayscale_image bgr2gray im;
          px = concat gray;
          mean_brightness = real (sum_list (map unat px)) / real (length px);
          hist = calcHist px;
          hist_normalized = map (\<lambda>c. c / sum_list hist) hist;
          overexposed_ratio = sum_list (drop 240 hist_normalized);
          underexposed_ratio = sum_list (take 15 hist_normalized);
          brightness_score =
            (if min_brightness v \<le> mean_brightness \<and> mean_brightness \<le> max_brightness v then 1
             else let distance = (if mean_brightness < min_brightness v
                                  then min_brightness v - mean_brightness
                                  else mean_brightness - max_brightness v)
                  in max 0 (1 - distance / 30));
          extreme_score = 1 - min 1 ((overexposed_ratio + underexposed_ratio) * 2);
          conf = brightness_score * 0.7 + extreme_score * 0.3;
          valid = (conf \<ge> threshold v);
          msg = (if valid then ''Belichting is correct''
                 else if mean_brightness < min_brightness v
                   then ''Foto is te donker. Zorg voor meer licht''
                 else if mean_brightness > max_brightness v
                   then ''Foto is te licht. Verminder de belichting''
                 else if overexposed_ratio > 0.05 then ''Te veel overbelichting gedetecteerd''
                 else if underexposed_ratio > 0.05 then ''Te veel onderbelichting gedetecteerd''
                 else ''Belichting is niet optimaal'');
          det = [(''mean_brightness'', DNum mean_brightness),
                 (''overexposed_ratio'', DNum overexposed_ratio),
                 (''underexposed_ratio'', DNum underexposed_ratio),
                 (''brightness_score'', DNum brightness_score),
                 (''extreme_score'', DNum extreme_score)]
      in (valid, conf, msg, Some det))"

definition BrightnessValidator_validate ::
  "(8 word \<times> 8 word \<times> 8 word \<Rightarrow> 8 word) \<Rightarrow> BrightnessValidator \<Rightarrow> Photo \<Rightarrow>
     FaceDetectionResult option \<Rightarrow> error + ValidationResult" where
  "BrightnessValidator_validate bgr2gray v photo face_detection =
     bindE (validate_image_data photo)
       (\<lambda>im. create_result ''BrightnessValidator'' (brightness_scores bgr2gray v im))"

subsection \<open>Sample results, photos and the default brightness check\<close>

definition sample_pass :: ValidationResult where
  "sample_pass = \<lparr>validator_name = ''V1'', is_valid = True, confidence = 0.9,
                   message = ''ok'', details = None\<rparr>"

definition sample_fail :: ValidationResult where
  "sample_fail = \<lparr>validator_name = ''V2'', is_valid = False, confidence = 0.3,
                   message = ''failed'', details = None\<rparr>"

definition sample_photo :: "ValidationResult list \<Rightarrow> Photo" where
  "sample_photo rs = \<lparr>image_data = Some (Gray [[140, 140], [140, 140]]), timestamp = 0,
                       photo_id = None, status = PENDING, validation_results = rs,
                       file_path = None, metadata = []\<rparr>"

text \<open>The validator \<^verbatim>\<open>BrightnessValidator()\<close> built with the defaults of
  \<^verbatim>\<open>ValidatorConfig\<close>.\<close>

definition default_brightness :: BrightnessValidator where
  "default_brightness = \<lparr>threshold = BRIGHTNESS_THRESHOLD, min_brightness = BRIGHTNESS_MIN,
       max_brightness = BRIGHTNESS_MAX\<rparr>"

text \<open>A concrete grayscale conversion for the sample runs: the fixed-point weighting
  \<open>0.114 B + 0.587 G + 0.299 R\<close> with rounding.\<close>

definition sample_bgr2gray :: "8 word \<times> 8 word \<times> 8 word \<Rightarrow> 8 word" where
  "sample_bgr2gray p = (case p of (b, g, r) \<Rightarrow>
     word_of_nat ((unat b * 3735 + unat g * 19235 + unat r * 9798 + 16384) div 32768))"

definition dark_photo :: Photo where
  "dark_photo = \<lparr>image_data = Some (Color [[(20, 20, 20), (20, 20, 20)]]), timestamp = 0,
                  photo_id = None, status = PENDING, validation_results = [],
                  file_path = None, metadata = []\<rparr>"

definition bright_photo :: Photo where
  "bright_photo = \<lparr>image_data = Some (Gray [[250], [250], [250]]), timestamp = 0,
                  photo_id = None, status = PENDING, validation_results = [],
                  file_path = None, metadata = []\<rparr>"

subsection \<open>\<^verbatim>\<open>validators/face_position_validator.py\<close>\<close>

record FacePositionValidator = BaseValidator +
  center_tolerance :: real
  min_size_ratio :: real
  max_size_ratio :: real

definition FacePositionValidator_init ::
  "real \<Rightarrow> real \<Rightarrow> real \<Rightarrow> real \<Rightarrow> error + FacePositionValidator" where
  "FacePositionValidator_init t tol mn mx =
     bindE (BaseValidator_init t)
       (\<lambda>b. Inr \<lparr>threshold = threshold b, center_tolerance = tol,
                  min_size_ratio = mn, max_size_ratio = mx\<rparr>)"

text \<open>The body of \<^verbatim>\<open>FacePositionValidator.validate\<close> once a bounding box, a face centre
  and a non-zero face size are at hand, up to the arguments of \<^verbatim>\<open>_create_result\<close>. Every
  division of the source is a \<^const>\<open>truediv\<close>, in the order the source evaluates them.\<close>

definition face_position_scores ::
  "FacePositionValidator \<Rightarrow> image \<Rightarrow> int \<times> int \<times> int \<times> int \<Rightarrow> int \<times> int \<Rightarrow> int \<Rightarrow>
     error + result_args" where
  "face_position_scores v im bbox face_center face_size =
     (case bbox of (x, y, w, h) \<Rightarrow>
      case face_center of (face_x, face_y) \<Rightarrow>
      let img_h = real (img_height im);
          img_w = real (img_width im);
          img_center_x = img_w / 2;
          img_center_y = img_h / 2
      in
      bindE (truediv \<bar>real_of_int face_x - img_center_x\<bar> img_w) (\<lambda>center_offset_x.
      bindE (truediv \<bar>real_of_int face_y - img_center_y\<bar> img_h) (\<lambda>center_offset_y.
      let max_center_offset = max center_offset_x center_offset_y in
      bindE (if max_center_offset \<le> center_tolerance v then Inr 1
             else bindE (truediv (max_center_offset - center_tolerance v) (center_tolerance v))
                    (\<lambda>q. Inr (max 0 (1 - q)))) (\<lambda>centering_score.
      let img_sz = img_w * img_h in
      bindE (truediv (real_of_int face_size) img_sz) (\<lambda>face_size_ratio.
      bindE (if min_size_ratio v \<le> face_size_ratio \<and> face_size_ratio \<le> max_size_ratio v
             then Inr 1
             else if face_size_ratio < min_size_ratio v
               then bindE (truediv (min_size_ratio v - face_size_ratio) (min_size_ratio v))
                      (\<lambda>q. Inr (max 0 (1 - q)))
               else bindE (truediv (face_size_ratio - max_size_ratio v) (max_size_ratio v))
                      (\<lambda>q. Inr (max 0 (1 - q)))) (\<lambda>size_score.
      let aspect_ratio = (if h > 0 then real_of_int w / real_of_int h else 0);
          aspect_score =
            (if 0.55 \<le> aspect_ratio \<and> aspect_ratio \<le> 1.1 then 1
             else let aspect_distance = (if aspect_ratio < 0.55 then 0.55 - aspect_ratio
                                         else aspect_ratio - 1.1)
                  in max 0 (1 - aspect_distance * 2));
          conf = centering_score * 0.4 + size_score * 0.4 + aspect_score * 0.2;
          valid = (conf \<ge> threshold v);
          msg =
            (if valid then ''Gezichtspositie is correct''
             else if centering_score < 0.7 then
               (if center_offset_x > center_offset_y
                then (if real_of_int face_x < img_center_x
                      then ''Beweeg meer naar rechts in beeld''
                      else ''Beweeg meer naar links in beeld'')
                else (if real_of_int face_y < img_center_y
                      then ''Beweeg meer naar beneden in beeld''
                      else ''Beweeg meer naar boven in beeld''))
             else if size_score < 0.7 then
               (if face_size_ratio < min_size_ratio v then ''Kom dichter bij de camera''
                else ''Ga verder van de camera af'')
             else if aspect_score < 0.7
               then ''Houd uw hoofd recht en kijk frontaal in de camera''
             else ''Pas uw positie aan voor een betere pasfoto'');
          det = [(''center_offset_x'', DNum center_offset_x),
                 (''center_offset_y'', DNum center_offset_y),
                 (''face_size_ratio'', DNum face_size_ratio),
                 (''aspect_ratio'', DNum aspect_ratio),
                 (''centering_score'', DNum centering_score),
                 (''size_score'', DNum size_score),
                 (''aspect_score'', DNum aspect_score)]
      in Inr (valid, conf, msg, Some det)))))))"

definition FacePositionValidator_validate ::
  "FacePositionValidator \<Rightarrow> Photo \<Rightarrow> FaceDetectionResult option \<Rightarrow> error + ValidationResult" where
  "FacePositionValidator_validate v photo face_detection =
     bindE (validate_image_data photo) (\<lambda>im.
       case face_detection of
         None \<Rightarrow> no_face_detected ''FacePositionValidator''
                   ''Geen gezicht gedetecteerd. Zorg dat uw gezicht zichtbaar is''
       | Some fd \<Rightarrow>
           if \<not> face_found fd
           then no_face_detected ''FacePositionValidator''
                  ''Geen gezicht gedetecteerd. Zorg dat uw gezicht zichtbaar is''
           else
             (case face_bbox fd of
                None \<Rightarrow> create_result ''FacePositionValidator''
                         (False, 0, ''Gezicht kon niet worden gelokaliseerd'',
                          Some [(''error'', DStr ''no_bounding_box'')])
              | Some bbox \<Rightarrow>
                  (case (get_face_center fd, get_face_size fd) of
                     (Some face_center, Some face_size) \<Rightarrow>
                       if face_size = 0
                       then create_result ''FacePositionValidator''
                              (False, 0, ''Gezicht kon niet worden geanalyseerd'',
                               Some [(''error'', DStr ''invalid_face_data'')])
                       else bindE (face_position_scores v im bbox face_center face_size)
                              (create_result ''FacePositionValidator'')
                   | _ \<Rightarrow> create_result ''FacePositionValidator''
                            (False, 0, ''Gezicht kon niet worden geanalyseerd'',
                             Some [(''error'', DStr ''invalid_face_data'')]))))"

subsection \<open>\<^verbatim>\<open>validators/expression_validator.py\<close>\<close>

record FacialExpressionValidator = BaseValidator +
  mouth_open_threshold :: real

definition FacialExpressionValidator_init :: "real \<Rightarrow> real \<Rightarrow> error + FacialExpressionValidator" where
  "FacialExpressionValidator_init t mo =
     bindE (BaseValidator_init t)
       (\<lambda>b. Inr \<lparr>threshold = threshold b, mouth_open_threshold = mo\<rparr>)"

text \<open>Reading a landmark as a number: arithmetic or an ordering comparison on a region
  tuple raises \<^verbatim>\<open>TypeError\<close>.\<close>

definition as_num :: "lm_value \<Rightarrow> error + real" where
  "as_num x = (case x of LNum r \<Rightarrow> Inr r
               | LRegion _ _ _ _ \<Rightarrow> Inl (TypeError ''unsupported operand type(s)''))"

definition calculate_mouth_aspect_ratio :: "(string \<times> lm_value) list \<Rightarrow> error + real" where
  "calculate_mouth_aspect_ratio lms =
     (case (map_of lms ''mouth_upper'', map_of lms ''mouth_lower'', map_of lms ''mouth_width'') of
        (Some upper, Some lower, Some width) \<Rightarrow>
          bindE (as_num lower) (\<lambda>lo.
          bindE (as_num upper) (\<lambda>up.
          let mouth_height = \<bar>lo - up\<bar> in
          bindE (as_num width) (\<lambda>mouth_width.
          if mouth_width = 0 then Inr 0 else Inr (mouth_height / mouth_width))))
      | _ \<Rightarrow> Inr 0.1)"

definition analyze_facial_features :: "(string \<times> lm_value) list \<Rightarrow> error + real" where
  "analyze_facial_features lms =
     bindE (case map_of lms ''eyebrow_raise'' of
              None \<Rightarrow> Inr 1
            | Some e \<Rightarrow> bindE (as_num e)
                          (\<lambda>eyebrow_raise. Inr (if eyebrow_raise > 0.3 then 1 - 0.3 else 1)))
       (\<lambda>score1.
     bindE (case map_of lms ''mouth_symmetry'' of
              None \<Rightarrow> Inr score1
            | Some s \<Rightarrow> bindE (as_num s)
                          (\<lambda>symmetry. Inr (if symmetry < 0.7 then score1 - 0.2 else score1)))
       (\<lambda>score. Inr (max 0 (min 1 score))))"

definition expression_scores ::
  "FacialExpressionValidator \<Rightarrow> (string \<times> lm_value) list \<Rightarrow> error + result_args" where
  "expression_scores v lms =
     bindE (calculate_mouth_aspect_ratio lms) (\<lambda>mouth_aspect_ratio.
     let mouth_closed = (mouth_aspect_ratio \<le> mouth_open_threshold v);
         mouth_score = (if mouth_closed then 1
                        else let excess = mouth_aspect_ratio - mouth_open_threshold v
                             in max 0 (1 - excess / 0.3))
     in
     bindE (analyze_facial_features lms) (\<lambda>expression_score.
     let conf = mouth_score * 0.6 + expression_score * 0.4;
         valid = (conf \<ge> threshold v);
         msg = (if valid then ''Gezichtsuitdrukking is neutraal en correct''
                else if \<not> mouth_closed then ''Sluit uw mond voor de pasfoto''
                else if expression_score < 0.6 then ''Neem een neutrale gezichtsuitdrukking aan''
                else ''Gezichtsuitdrukking is niet volledig neutraal'');
         det = [(''mouth_aspect_ratio'', DNum mouth_aspect_ratio),
                (''mouth_closed'', DBool mouth_closed),
                (''mouth_score'', DNum mouth_score),
                (''expression_score'', DNum expression_score)]
     in Inr (valid, conf, msg, Some det)))"

definition FacialExpressionValidator_validate ::
  "FacialExpressionValidator \<Rightarrow> Photo \<Rightarrow> FaceDetectionResult option \<Rightarrow>
     error + ValidationResult" where
  "FacialExpressionValidator_validate v photo face_detection =
     bindE (validate_image_data photo) (\<lambda>im.
       case face_detection of
         None \<Rightarrow> no_face_detected ''FacialExpressionValidator'' ''Geen gezicht gedetecteerd''
       | Some fd \<Rightarrow>
           if \<not> face_found fd
           then no_face_detected ''FacialExpressionValidator'' ''Geen gezicht gedetecteerd''
           else
             (case landmarks fd of
                None \<Rightarrow> create_result ''FacialExpressionValidator''
                         (False, 0, ''Gezichtskenmerken konden niet worden gedetecteerd'',
                          Some [(''error'', DStr ''no_landmarks'')])
              | Some lms \<Rightarrow>
                  if lms = []
                  then create_result ''FacialExpressionValidator''
                         (False, 0, ''Gezichtskenmerken konden niet worden gedetecteerd'',
                          Some [(''error'', DStr ''no_landmarks'')])
                  else bindE (expression_scores v lms)
                         (create_result ''FacialExpressionValidator'')))"

subsection \<open>\<^verbatim>\<open>validators/eye_validator.py\<close>\<close>

record EyeVisibilityValidator = BaseValidator +
  min_eye_aspect_ratio :: real

definition EyeVisibilityValidator_init :: "real \<Rightarrow> real \<Rightarrow> error + EyeVisibilityValidator" where
  "EyeVisibilityValidator_init t mn =
     bindE (BaseValidator_init t)
       (\<lambda>b. Inr \<lparr>threshold = threshold b, min_eye_aspect_ratio = mn\<rparr>)"

text \<open>A Python slice \<^verbatim>\<open>xs[a:b]\<close>: a negative bound counts from the end, and both bounds are
  clipped to the length.\<close>

definition py_slice :: "'a list \<Rightarrow> int \<Rightarrow> int \<Rightarrow> 'a list" where
  "py_slice xs a b =
     (let n = int (length xs);
          lo = (if a < 0 then max 0 (a + n) else min a n);
          hi = (if b < 0 then max 0 (b + n) else min b n)
      in take (nat (hi - lo)) (drop (nat lo) xs))"

text \<open>The crop \<^verbatim>\<open>image[y:y+h, x:x+w]\<close>.\<close>

definition crop :: "image \<Rightarrow> int \<Rightarrow> int \<Rightarrow> int \<Rightarrow> int \<Rightarrow> image" where
  "crop im x y w h =
     (case im of
        Gray rows \<Rightarrow> Gray (map (\<lambda>r. py_slice r x (x + w)) (py_slice rows y (y + h)))
      | Color rows \<Rightarrow> Color (map (\<lambda>r. py_slice r x (x + w)) (py_slice rows y (y + h))))"

text \<open>\<^verbatim>\<open>_calculate_eye_aspect_ratio\<close>. The source returns the stored value as it is; a value
  that is not a number raises \<^verbatim>\<open>TypeError\<close> at the first comparison in \<^verbatim>\<open>validate\<close>, which
  the model reports here.\<close>

definition calculate_eye_aspect_ratio :: "(string \<times> lm_value) list \<Rightarrow> string \<Rightarrow> error + real" where
  "calculate_eye_aspect_ratio lms eye =
     (case map_of lms (eye @ ''_eye_height'') of
        Some ear \<Rightarrow> as_num ear
      | None \<Rightarrow> Inr 0.10)"

text \<open>The fraction of pixels brighter than 240 in the grayscale of an eye region.\<close>

definition eye_bright_ratio :: "(8 word \<times> 8 word \<times> 8 word \<Rightarrow> 8 word) \<Rightarrow> image \<Rightarrow> real" where
  "eye_bright_ratio bgr2gray eye_region =
     (let eye_gray = concat (get_grayscale_image bgr2gray eye_region);
          bright_pixels = length (filter (\<lambda>p. unat p > 240) eye_gray);
          total_pixels = length eye_gray
      in real bright_pixels / real total_pixels)"

definition check_eye_coverage ::
  "(8 word \<times> 8 word \<times> 8 word \<Rightarrow> 8 word) \<Rightarrow> image \<Rightarrow> (string \<times> lm_value) list \<Rightarrow> string \<Rightarrow>
     error + real" where
  "check_eye_coverage bgr2gray im lms eye =
     (case map_of lms (eye @ ''_eye_region'') of
        None \<Rightarrow> Inr 0.8
      | Some (LNum _) \<Rightarrow> Inl (TypeError ''cannot unpack non-iterable object'')
      | Some (LRegion x y w h) \<Rightarrow>
          let eye_region = crop im x y w h in
          if img_size eye_region = 0 then Inr 0.5
          else let bright_ratio = eye_bright_ratio bgr2gray eye_region
               in Inr (if bright_ratio > 0.3 then 0.5
                       else if bright_ratio > 0.15 then 0.7
                       else 1))"

text \<open>The score of one eye from its aspect ratio; the source writes the same three branches
  once for the left and once for the right eye.\<close>

definition eye_score :: "real \<Rightarrow> real" where
  "eye_score ear =
     (let closed_threshold = 0.22; min_acceptable = 0.25 in
      if ear \<ge> min_acceptable then 1
      else if ear \<ge> closed_threshold
        then 0.6 + (ear - closed_threshold) / (min_acceptable - closed_threshold) * 0.4
      else max 0 (ear / closed_threshold * 0.5))"

definition eye_scores ::
  "(8 word \<times> 8 word \<times> 8 word \<Rightarrow> 8 word) \<Rightarrow> EyeVisibilityValidator \<Rightarrow> image \<Rightarrow>
     (string \<times> lm_value) list \<Rightarrow> error + result_args" where
  "eye_scores bgr2gray v im lms =
     bindE (calculate_eye_aspect_ratio lms ''left'') (\<lambda>left_ear.
     bindE (calculate_eye_aspect_ratio lms ''right'') (\<lambda>right_ear.
     let closed_threshold = 0.22;
         left_eye_open = (left_ear \<ge> closed_threshold);
         right_eye_open = (right_ear \<ge> closed_threshold);
         left_score = eye_score left_ear;
         right_score = eye_score right_ear
     in
     bindE (check_eye_coverage bgr2gray im lms ''left'') (\<lambda>left_coverage.
     bindE (check_eye_coverage bgr2gray im lms ''right'') (\<lambda>right_coverage.
     let coverage_score = (left_coverage + right_coverage) / 2;
         eye_openness_score = (left_score + right_score) / 2;
         conf = eye_openness_score * 0.7 + coverage_score * 0.3;
         valid = (conf \<ge> threshold v \<and> left_eye_open \<and> right_eye_open);
         msg = (if valid then ''Beide ogen zijn goed zichtbaar''
                else if \<not> left_eye_open \<and> \<not> right_eye_open then ''Open uw ogen voor de pasfoto''
                else if \<not> left_eye_open then ''Open uw rechteroog voor de pasfoto''
                else if \<not> right_eye_open then ''Open uw linkeroog voor de pasfoto''
                else if coverage_score < 0.7
                  then ''Zorg dat uw ogen niet bedekt zijn door reflecties of haar''
                else ''Ogen zijn niet volledig zichtbaar'');
         det = [(''left_eye_aspect_ratio'', DNum left_ear),
                (''right_eye_aspect_ratio'', DNum right_ear),
                (''left_eye_open'', DBool left_eye_open),
                (''right_eye_open'', DBool right_eye_open),
                (''left_score'', DNum left_score),
                (''right_score'', DNum right_score),
                (''coverage_score'', DNum coverage_score)]
     in Inr (valid, conf, msg, Some det)))))"

definition EyeVisibilityValidator_validate ::
  "(8 word \<times> 8 word \<times> 8 word \<Rightarrow> 8 word) \<Rightarrow> EyeVisibilityValidator \<Rightarrow> Photo \<Rightarrow>
     FaceDetectionResult option \<Rightarrow> error + ValidationResult" where
  "EyeVisibilityValidator_validate bgr2gray v photo face_detection =
     bindE (validate_image_data photo) (\<lambda>im.
       case face_detection of
         None \<Rightarrow> no_face_detected ''EyeVisibilityValidator'' ''Geen gezicht gedetecteerd''
       | Some fd \<Rightarrow>
           if \<not> face_found fd
           then no_face_detected ''EyeVisibilityValidator'' ''Geen gezicht gedetecteerd''
           else
             (case landmarks fd of
                None \<Rightarrow> create_result ''EyeVisibilityValidator''
                         (False, 0, ''Ogen konden niet worden gedetecteerd'',
                          Some [(''error'', DStr ''no_landmarks'')])
              | Some lms \<Rightarrow>
                  if lms = []
                  then create_result ''EyeVisibilityValidator''
                         (False, 0, ''Ogen konden niet worden gedetecteerd'',
                          Some [(''error'', DStr ''no_landmarks'')])
                  else bindE (eye_scores bgr2gray v im lms)
                         (create_result ''EyeVisibilityValidator'')))"

subsection \<open>The validators scored with OpenCV operators\<close>

record SharpnessValidator = BaseValidator +
  min_variance :: real

record ReflectionValidator = BaseValidator +
  brightness_threshold :: int
  max_reflection_ratio :: real

record ShadowValidator = BaseValidator +
  darkness_threshold :: int
  max_shadow_ratio :: real

text \<open>\<^verbatim>\<open>HeadwearValidator\<close> and \<^verbatim>\<open>BackgroundValidator\<close> add no field to the base class.\<close>

type_synonym HeadwearValidator = BaseValidator
type_synonym BackgroundValidator = BaseValidator

definition SharpnessValidator_init :: "real \<Rightarrow> real \<Rightarrow> error + SharpnessValidator" where
  "SharpnessValidator_init t mv =
     bindE (BaseValidator_init t) (\<lambda>b. Inr \<lparr>threshold = threshold b, min_variance = mv\<rparr>)"

definition ReflectionValidator_init :: "real \<Rightarrow> int \<Rightarrow> real \<Rightarrow> error + ReflectionValidator" where
  "ReflectionValidator_init t bt mr =
     bindE (BaseValidator_init t)
       (\<lambda>b. Inr \<lparr>threshold = threshold b, brightness_threshold = bt,
                  max_reflection_ratio = mr\<rparr>)"

definition ShadowValidator_init :: "real \<Rightarrow> int \<Rightarrow> real \<Rightarrow> error + ShadowValidator" where
  "ShadowValidator_init t dt mr =
     bindE (BaseValidator_init t)
       (\<lambda>b. Inr \<lparr>threshold = threshold b, darkness_threshold = dt, max_shadow_ratio = mr\<rparr>)"

definition HeadwearValidator_init :: "real \<Rightarrow> error + HeadwearValidator" where
  "HeadwearValidator_init t = BaseValidator_init t"

definition BackgroundValidator_init :: "real \<Rightarrow> error + BackgroundValidator" where
  "BackgroundValidator_init t = BaseValidator_init t"

text \<open>
  These five validators compute their scores with image operators of OpenCV and NumPy
  (\<^verbatim>\<open>cv2.Laplacian\<close>, \<^verbatim>\<open>cv2.threshold\<close>, \<^verbatim>\<open>cv2.morphologyEx\<close>,
  \<^verbatim>\<open>cv2.connectedComponentsWithStats\<close>, \<^verbatim>\<open>cv2.Canny\<close>, \<^verbatim>\<open>cv2.inRange\<close>, \<^verbatim>\<open>np.std\<close>),
  which are libraries outside the repository. The model takes, for each of them, the part
  of \<^verbatim>\<open>validate\<close> between the guards and the call of \<^verbatim>\<open>_create_result\<close> as a parameter:
  a function to the arguments of \<^verbatim>\<open>_create_result\<close>, or to the exception an operator
  raises. The image check, the no-face guards, and the construction of the result are
  modelled from the source.
\<close>

record opencv =
  cvtColor_BGR2GRAY :: "8 word \<times> 8 word \<times> 8 word \<Rightarrow> 8 word"
  sharpness_scores :: "SharpnessValidator \<Rightarrow> image \<Rightarrow> FaceDetectionResult option \<Rightarrow> error + result_args"
  reflection_scores :: "ReflectionValidator \<Rightarrow> image \<Rightarrow> FaceDetectionResult option \<Rightarrow> error + result_args"
  shadow_scores :: "ShadowValidator \<Rightarrow> image \<Rightarrow> FaceDetectionResult option \<Rightarrow> error + result_args"
  headwear_scores :: "HeadwearValidator \<Rightarrow> image \<Rightarrow> int \<times> int \<times> int \<times> int \<Rightarrow> error + result_args"
  background_scores :: "BackgroundValidator \<Rightarrow> image \<Rightarrow> int \<times> int \<times> int \<times> int \<Rightarrow> error + result_args"

definition SharpnessValidator_validate ::
  "opencv \<Rightarrow> SharpnessValidator \<Rightarrow> Photo \<Rightarrow> FaceDetectionResult option \<Rightarrow>
     error + ValidationResult" where
  "SharpnessValidator_validate cv v photo face_detection =
     bindE (validate_image_data photo) (\<lambda>im.
       bindE (sharpness_scores cv v im face_detection) (create_result ''SharpnessValidator''))"

definition ReflectionValidator_validate ::
  "opencv \<Rightarrow> ReflectionValidator \<Rightarrow> Photo \<Rightarrow> FaceDetectionResult option \<Rightarrow>
     error + ValidationResult" where
  "ReflectionValidator_validate cv v photo face_detection =
     bindE (validate_image_data photo) (\<lambda>im.
       bindE (reflection_scores cv v im face_detection) (create_result ''ReflectionValidator''))"

definition ShadowValidator_validate ::
  "opencv \<Rightarrow> ShadowValidator \<Rightarrow> Photo \<Rightarrow> FaceDetectionResult option \<Rightarrow>
     error + ValidationResult" where
  "ShadowValidator_validate cv v photo face_detection =
     bindE (validate_image_data photo) (\<lambda>im.
       bindE (shadow_scores cv v im face_detection) (create_result ''ShadowValidator''))"

text \<open>\<^verbatim>\<open>HeadwearValidator.validate\<close>: the guard
  \<^verbatim>\<open>not face_detection or not face_detection.face_found or not face_detection.face_bbox\<close>
  comes first.\<close>

definition HeadwearValidator_validate ::
  "opencv \<Rightarrow> HeadwearValidator \<Rightarrow> Photo \<Rightarrow> FaceDetectionResult option \<Rightarrow>
     error + ValidationResult" where
  "HeadwearValidator_validate cv v photo face_detection =
     bindE (validate_image_data photo) (\<lambda>im.
       case face_detection of
         None \<Rightarrow> no_face_detected ''HeadwearValidator'' ''Geen gezicht gedetecteerd''
       | Some fd \<Rightarrow>
           if \<not> face_found fd
           then no_face_detected ''HeadwearValidator'' ''Geen gezicht gedetecteerd''
           else
             (case face_bbox fd of
                None \<Rightarrow> no_face_detected ''HeadwearValidator'' ''Geen gezicht gedetecteerd''
              | Some bbox \<Rightarrow>
                  bindE (headwear_scores cv v im bbox) (create_result ''HeadwearValidator'')))"

text \<open>\<^verbatim>\<open>BackgroundValidator.validate\<close>: under the same guard this validator returns a
  passing result with confidence 0.5.\<close>

definition background_not_analysed :: "error + ValidationResult" where
  "background_not_analysed =
     create_result ''BackgroundValidator''
       (True, 0.5, ''Achtergrond kon niet worden geanalyseerd'',
        Some [(''error'', DStr ''no_face_for_reference'')])"

definition BackgroundValidator_validate ::
  "opencv \<Rightarrow> BackgroundValidator \<Rightarrow> Photo \<Rightarrow> FaceDetectionResult option \<Rightarrow>
     error + ValidationResult" where
  "BackgroundValidator_validate cv v photo face_detection =
     bindE (validate_image_data photo) (\<lambda>im.
       case face_detection of
         None \<Rightarrow> background_not_analysed
       | Some fd \<Rightarrow>
           if \<not> face_found fd then background_not_analysed
           else
             (case face_bbox fd of
                None \<Rightarrow> background_not_analysed
              | Some bbox \<Rightarrow>
                  bindE (background_scores cv v im bbox) (create_result ''BackgroundValidator'')))"

subsection \<open>Validator objects behind the interface\<close>

text \<open>Each validator class seen through \<^verbatim>\<open>IValidator\<close>: its \<^verbatim>\<open>get_name\<close>, its
  \<^verbatim>\<open>get_description\<close> and its \<^verbatim>\<open>validate\<close> bound to the object.\<close>

definition BrightnessValidator_object :: "opencv \<Rightarrow> BrightnessValidator \<Rightarrow> IValidator" where
  "BrightnessValidator_object cv v =
     \<lparr>get_name = ''BrightnessValidator'',
      get_description = ''Controleert of de belichting van de foto correct is'',
      validate = BrightnessValidator_validate (cvtColor_BGR2GRAY cv) v\<rparr>"

definition SharpnessValidator_object :: "opencv \<Rightarrow> SharpnessValidator \<Rightarrow> IValidator" where
  "SharpnessValidator_object cv v =
     \<lparr>get_name = ''SharpnessValidator'',
      get_description = ''Controleert of de foto voldoende scherp is en niet wazig'',
      validate = SharpnessValidator_validate cv v\<rparr>"

definition FacePositionValidator_object :: "FacePositionValidator \<Rightarrow> IValidator" where
  "FacePositionValidator_object v =
     \<lparr>get_name = ''FacePositionValidator'',
      get_description = ''Controleert of het gezicht correct gepositioneerd en gecentreerd is'',
      validate = FacePositionValidator_validate v\<rparr>"

definition FacialExpressionValidator_object :: "FacialExpressionValidator \<Rightarrow> IValidator" where
  "FacialExpressionValidator_object v =
     \<lparr>get_name = ''FacialExpressionValidator'',
      get_description = ''Controleert of de gezichtsuitdrukking neutraal is en de mond gesloten'',
      validate = FacialExpressionValidator_validate v\<rparr>"

definition EyeVisibilityValidator_object :: "opencv \<Rightarrow> EyeVisibilityValidator \<Rightarrow> IValidator" where
  "EyeVisibilityValidator_object cv v =
     \<lparr>get_name = ''EyeVisibilityValidator'',
      get_description = ''Controleert of beide ogen goed zichtbaar zijn en niet bedekt'',
      validate = EyeVisibilityValidator_validate (cvtColor_BGR2GRAY cv) v\<rparr>"

definition ReflectionValidator_object :: "opencv \<Rightarrow> ReflectionValidator \<Rightarrow> IValidator" where
  "ReflectionValidator_object cv v =
     \<lparr>get_name = ''ReflectionValidator'',
      get_description = ''Controleert op ongewenste reflecties in de foto'',
      validate = ReflectionValidator_validate cv v\<rparr>"

definition ShadowValidator_object :: "opencv \<Rightarrow> ShadowValidator \<Rightarrow> IValidator" where
  "ShadowValidator_object cv v =
     \<lparr>get_name = ''ShadowValidator'',
      get_description = ''Controleert op storende schaduwen in de foto'',
      validate = ShadowValidator_validate cv v\<rparr>"

definition HeadwearValidator_object :: "opencv \<Rightarrow> HeadwearValidator \<Rightarrow> IValidator" where
  "HeadwearValidator_object cv v =
     \<lparr>get_name = ''HeadwearValidator'',
      get_description = ''Controleert of er geen hoofddeksel wordt gedragen'',
      validate = HeadwearValidator_validate cv v\<rparr>"

definition BackgroundValidator_object :: "opencv \<Rightarrow> BackgroundValidator \<Rightarrow> IValidator" where
  "BackgroundValidator_object cv v =
     \<lparr>get_name = ''BackgroundValidator'',
      get_description = ''Controleert of de achtergrond neutraal en uniform is'',
      validate = BackgroundValidator_validate cv v\<rparr>"

subsection \<open>\<^verbatim>\<open>services/validation_service.py\<close>\<close>

text \<open>
  The service holds the face detection model and the registered validators. The detection
  model wraps MediaPipe and is a parameter: a function from the image to a detection result
  or to the exception it raises. Observers and the logger receive notifications and never
  touch the photo (an exception of an observer is caught in \<^verbatim>\<open>_notify_observers\<close>); they
  are left out of the state.
\<close>

record ValidationService =
  face_detection_model :: "image option \<Rightarrow> error + FaceDetectionResult"
  validators :: "IValidator list"

text \<open>\<^verbatim>\<open>_create_default_validators\<close>: the constructors are called without arguments, so each
  takes its defaults from \<^verbatim>\<open>ValidatorConfig\<close>.\<close>

definition create_default_validators :: "opencv \<Rightarrow> error + IValidator list" where
  "create_default_validators cv =
     bindE (BrightnessValidator_init BRIGHTNESS_THRESHOLD BRIGHTNESS_MIN BRIGHTNESS_MAX) (\<lambda>v1.
     bindE (SharpnessValidator_init SHARPNESS_THRESHOLD SHARPNESS_MIN_VARIANCE) (\<lambda>v2.
     bindE (FacePositionValidator_init FACE_POSITION_THRESHOLD FACE_CENTER_TOLERANCE
              FACE_SIZE_MIN_RATIO FACE_SIZE_MAX_RATIO) (\<lambda>v3.
     bindE (FacialExpressionValidator_init EXPRESSION_THRESHOLD MOUTH_OPEN_THRESHOLD) (\<lambda>v4.
     bindE (EyeVisibilityValidator_init EYE_VISIBILITY_THRESHOLD EYE_ASPECT_RATIO_MIN) (\<lambda>v5.
     bindE (ReflectionValidator_init REFLECTION_THRESHOLD REFLECTION_BRIGHTNESS_THRESHOLD
              REFLECTION_MAX_RATIO) (\<lambda>v6.
     bindE (ShadowValidator_init SHADOW_THRESHOLD SHADOW_DARKNESS_THRESHOLD SHADOW_MAX_RATIO) (\<lambda>v7.
     Inr [BrightnessValidator_object cv v1,
          SharpnessValidator_object cv v2,
          FacePositionValidator_object v3,
          FacialExpressionValidator_object v4,
          EyeVisibilityValidator_object cv v5,
          ReflectionValidator_object cv v6,
          ShadowValidator_object cv v7])))))))"

text \<open>\<^verbatim>\<open>ValidationService.__init__\<close>: without a validator list the default set is built.\<close>

definition ValidationService_init ::
  "opencv \<Rightarrow> (image option \<Rightarrow> error + FaceDetectionResult) \<Rightarrow> IValidator list option \<Rightarrow>
     error + ValidationService" where
  "ValidationService_init cv model vs_opt =
     (case vs_opt of
        None \<Rightarrow> bindE (create_default_validators cv)
                  (\<lambda>vs. Inr \<lparr>face_detection_model = model, validators = vs\<rparr>)
      | Some vs \<Rightarrow> Inr \<lparr>face_detection_model = model, validators = vs\<rparr>)"

text \<open>The loop of \<^verbatim>\<open>validate_photo\<close> over the registered validators: a result is appended
  to the photo, an exception is caught and the loop goes on with the next validator.\<close>

fun run_validators :: "IValidator list \<Rightarrow> FaceDetectionResult \<Rightarrow> Photo \<Rightarrow> Photo" where
  "run_validators [] fd photo = photo"
| "run_validators (v # vs) fd photo =
     (case validate v photo (Some fd) of
        Inr result \<Rightarrow> run_validators vs fd (add_validation_result photo result)
      | Inl e \<Rightarrow> run_validators vs fd photo)"

text \<open>\<^verbatim>\<open>validate_photo\<close>: the face detection runs outside the \<^verbatim>\<open>try\<close>, so its exception
  leaves the method.\<close>

definition validate_photo :: "ValidationService \<Rightarrow> Photo \<Rightarrow> error + Photo" where
  "validate_photo service photo =
     bindE (face_detection_model service (image_data photo))
       (\<lambda>face_detection.
          Inr (update_status (run_validators (validators service) face_detection photo)))"

subsection \<open>Sample inputs for the orchestrator and the face-dependent checks\<close>

text \<open>An OpenCV stand-in whose scoring functions all return a full score.\<close>

definition sample_opencv :: opencv where
  "sample_opencv =
     \<lparr>cvtColor_BGR2GRAY = sample_bgr2gray,
      sharpness_scores = (\<lambda>v im fd. Inr (True, 1, ''Foto is voldoende scherp'', None)),
      reflection_scores =
        (\<lambda>v im fd. Inr (True, 1, ''Geen significante reflecties gedetecteerd'', None)),
      shadow_scores = (\<lambda>v im fd. Inr (True, 1, ''Geen storende schaduwen gedetecteerd'', None)),
      headwear_scores = (\<lambda>v im bbox. Inr (True, 1, ''Geen hoofddeksel gedetecteerd'', None)),
      background_scores = (\<lambda>v im bbox. Inr (True, 1, ''Achtergrond is acceptabel'', None))\<rparr>"

definition no_face :: FaceDetectionResult where
  "no_face = \<lparr>face_found = False, detection_confidence = 0, face_bbox = None,
              landmarks = None\<rparr>"

text \<open>A face in the top left corner of the 2 by 2 sample image, without landmarks.\<close>

definition corner_face :: FaceDetectionResult where
  "corner_face = \<lparr>face_found = True, detection_confidence = 1,
                  face_bbox = Some (0, 0, 1, 1), landmarks = None\<rparr>"

text \<open>\<^verbatim>\<open>FacePositionValidator(center_tolerance=0.0)\<close> and \<^verbatim>\<open>FacialExpressionValidator()\<close>.\<close>

definition zero_tolerance_position :: FacePositionValidator where
  "zero_tolerance_position =
     \<lparr>threshold = FACE_POSITION_THRESHOLD, center_tolerance = 0,
      min_size_ratio = FACE_SIZE_MIN_RATIO, max_size_ratio = FACE_SIZE_MAX_RATIO\<rparr>"

definition default_expression :: FacialExpressionValidator where
  "default_expression =
     \<lparr>threshold = EXPRESSION_THRESHOLD, mouth_open_threshold = MOUTH_OPEN_THRESHOLD\<rparr>"

definition sample_service :: ValidationService where
  "sample_service =
     \<lparr>face_detection_model = (\<lambda>im. Inr corner_face),
      validators = [FacialExpressionValidator_object default_expression,
                    FacePositionValidator_object zero_tolerance_position]\<rparr>"

text \<open>The names of the results a run leaves on the photo.\<close>

definition result_names :: "error + Photo \<Rightarrow> error + string list" where
  "result_names run =
     (case run of Inl e \<Rightarrow> Inl e | Inr photo \<Rightarrow> Inr (map validator_name (validation_results photo)))"

text \<open>The names of the validators a service registers by default.\<close>

definition default_validator_names :: "opencv \<Rightarrow> error + string list" where
  "default_validator_names cv =
     (case create_default_validators cv of Inl e \<Rightarrow> Inl e | Inr vs \<Rightarrow> Inr (map get_name vs))"

text \<open>The seven validator objects built from the defaults of \<^verbatim>\<open>ValidatorConfig\<close>.\<close>

definition default_objects :: "opencv \<Rightarrow> IValidator list" where
  "default_objects cv =
     [BrightnessValidator_object cv default_brightness,
      SharpnessValidator_object cv
        \<lparr>threshold = SHARPNESS_THRESHOLD, min_variance = SHARPNESS_MIN_VARIANCE\<rparr>,
      FacePositionValidator_object
        \<lparr>threshold = FACE_POSITION_THRESHOLD, center_tolerance = FACE_CENTER_TOLERANCE,
         min_size_ratio = FACE_SIZE_MIN_RATIO, max_size_ratio = FACE_SIZE_MAX_RATIO\<rparr>,
      FacialExpressionValidator_object default_expression,
      EyeVisibilityValidator_object cv
        \<lparr>threshold = EYE_VISIBILITY_THRESHOLD, min_eye_aspect_ratio = EYE_ASPECT_RATIO_MIN\<rparr>,
      ReflectionValidator_object cv
        \<lparr>threshold = REFLECTION_THRESHOLD,
         brightness_threshold = REFLECTION_BRIGHTNESS_THRESHOLD,
         max_reflection_ratio = REFLECTION_MAX_RATIO\<rparr>,
      ShadowValidator_object cv
        \<lparr>threshold = SHADOW_THRESHOLD, darkness_threshold = SHADOW_DARKNESS_THRESHOLD,
         max_shadow_ratio = SHADOW_MAX_RATIO\<rparr>]"

subsection \<open>Sample inputs for the eye visibility check\<close>

text \<open>\<^verbatim>\<open>EyeVisibilityValidator()\<close> with its defaults, a detection with two open eyes, and one
  whose left eye has the aspect ratio 0.175 the source reports for a closed eye.\<close>

definition default_eye :: EyeVisibilityValidator where
  "default_eye = \<lparr>threshold = EYE_VISIBILITY_THRESHOLD,
                  min_eye_aspect_ratio = EYE_ASPECT_RATIO_MIN\<rparr>"

definition open_eyes_landmarks :: "(string \<times> lm_value) list" where
  "open_eyes_landmarks =
     [(''left_eye_height'', LNum 0.3), (''right_eye_height'', LNum 0.3),
      (''left_eye_region'', LRegion 0 0 1 1), (''right_eye_region'', LRegion 1 0 1 1)]"

definition closed_eye_landmarks :: "(string \<times> lm_value) list" where
  "closed_eye_landmarks =
     [(''left_eye_height'', LNum 0.175), (''right_eye_height'', LNum 0.3),
      (''left_eye_region'', LRegion 0 0 1 1), (''right_eye_region'', LRegion 1 0 1 1)]"

definition face_with :: "(string \<times> lm_value) list \<Rightarrow> FaceDetectionResult" where
  "face_with lms = \<lparr>face_found = True, detection_confidence = 1,
                    face_bbox = Some (0, 0, 2, 2), landmarks = Some lms\<rparr>"

section \<open>Properties of the data model\<close>

lemma update_status_results:
  "validation_results (update_status photo) = validation_results photo"
  by (simp add: update_status_def)

lemma Photo_is_valid_iff:
  "Photo_is_valid photo \<longleftrightarrow>
     validation_results photo \<noteq> [] \<and> (\<forall>r \<in> set (validation_results photo). is_valid r)"
  by (simp add: Photo_is_valid_def list_all_iff)


text \<open>
  C3. After any change of the results, recomputing the status with \<^verbatim>\<open>update_status\<close> leaves
  the results untouched and makes the status a function of them: PENDING iff the results
  are empty, APPROVED iff they are non-empty and every entry passed, REJECTED iff they are
  non-empty and at least one entry failed. The photo is arbitrary, whatever status it had.
\<close>

theorem update_status_function_of_results:
  "validation_results (update_status photo) = validation_results photo \<and>
   (status (update_status photo) = PENDING \<longleftrightarrow> validation_results photo = []) \<and>
   (status (update_status photo) = APPROVED \<longleftrightarrow>
      validation_results photo \<noteq> [] \<and> (\<forall>r \<in> set (validation_results photo). is_valid r)) \<and>
   (status (update_status photo) = REJECTED \<longleftrightarrow>
      validation_results photo \<noteq> [] \<and> (\<exists>r \<in> set (validation_results photo). \<not> is_valid r))"
  by (auto simp: update_status_def Photo_is_valid_iff)

theorem update_status_function_of_results_witness:
  "status (update_status (add_validation_result (sample_photo [sample_pass]) sample_fail)) = REJECTED \<and>
   status (update_status (sample_photo [sample_pass])) = APPROVED \<and>
   status (update_status ((sample_photo [])\<lparr>status := REJECTED\<rparr>)) = PENDING"
  using update_status_function_of_results
          [of "add_validation_result (sample_photo [sample_pass]) sample_fail"]
        update_status_function_of_results [of "sample_photo [sample_pass]"]
        update_status_function_of_results [of "(sample_photo [])\<lparr>status := REJECTED\<rparr>"]
  by (simp add: add_validation_result_def sample_photo_def sample_pass_def sample_fail_def)

text \<open>
  C4. Constructing a \<^verbatim>\<open>ValidationResult\<close> with confidence \<open>c\<close> succeeds iff
  \<open>0 \<le> c \<le> 1\<close>; outside that range it fails with the \<^verbatim>\<open>ValueError\<close> of
  \<^verbatim>\<open>__post_init__\<close>, and a result that is built stores \<open>c\<close> itself, never a clamped value.
\<close>

theorem ValidationResult_init_range:
  "((\<exists>r. ValidationResult_init name valid c msg det = Inr r) \<longleftrightarrow> (0 \<le> c \<and> c \<le> 1)) \<and>
   (\<not> (0 \<le> c \<and> c \<le> 1) \<longrightarrow>
      ValidationResult_init name valid c msg det =
        Inl (ValueError ''Confidence must be between 0.0 and 1.0'')) \<and>
   (\<forall>r. ValidationResult_init name valid c msg det = Inr r \<longrightarrow> confidence r = c)"
  by (auto simp: ValidationResult_init_def)

theorem ValidationResult_init_range_witness:
  "ValidationResult_init ''Test'' True 1.5 ''Invalid'' None =
     Inl (ValueError ''Confidence must be between 0.0 and 1.0'') \<and>
   ValidationResult_init ''Test'' True (- 0.1) ''Invalid'' None =
     Inl (ValueError ''Confidence must be between 0.0 and 1.0'') \<and>
   (\<exists>r. ValidationResult_init ''Test'' True 0.85 ''Good'' None = Inr r \<and> confidence r = 0.85)"
  using ValidationResult_init_range [of "''Test''" True "1.5" "''Invalid''" None]
        ValidationResult_init_range [of "''Test''" True "- 0.1" "''Invalid''" None]
        ValidationResult_init_range [of "''Test''" True "0.85" "''Good''" None]
  by auto

text \<open>
  C9. For the bounding box \<open>(100, 200, 300, 400)\<close> the face centre is \<open>(250, 400)\<close> and the
  face size is \<open>120000\<close>; without a bounding box both \<^verbatim>\<open>get_face_center\<close> and
  \<^verbatim>\<open>get_face_size\<close> return \<^verbatim>\<open>None\<close>.
\<close>

theorem face_center_and_size:
  "get_face_center (fd\<lparr>face_bbox := Some (100, 200, 300, 400)\<rparr>) = Some (250, 400) \<and>
   get_face_size (fd\<lparr>face_bbox := Some (100, 200, 300, 400)\<rparr>) = Some 120000 \<and>
   (face_bbox fd = None \<longrightarrow> get_face_center fd = None \<and> get_face_size fd = None)"
  by (simp add: get_face_center_def get_face_size_def)

theorem face_center_and_size_witness:
  "get_face_center \<lparr>face_found = False, detection_confidence = 0, face_bbox = None,
                    landmarks = None\<rparr> = None \<and>
   get_face_size \<lparr>face_found = False, detection_confidence = 0, face_bbox = None,
                  landmarks = None\<rparr> = None \<and>
   get_face_center \<lparr>face_found = True, detection_confidence = 0.95,
                    face_bbox = Some (100, 200, 300, 400), landmarks = None\<rparr> = Some (250, 400)"
  using face_center_and_size [of "\<lparr>face_found = False, detection_confidence = 0,
          face_bbox = None, landmarks = None\<rparr>"]
        face_center_and_size [of "\<lparr>face_found = True, detection_confidence = 0.95,
          face_bbox = None, landmarks = None\<rparr>"]
  by simp

text \<open>
  C10. For a photo without validation results \<^verbatim>\<open>get_overall_confidence\<close> returns exactly
  \<open>0.0\<close>; the division by the number of results is never reached with a zero divisor, so
  the function returns a value for every photo.
\<close>

theorem overall_confidence_empty:
  "(validation_results photo = [] \<longrightarrow> get_overall_confidence photo = Inr 0) \<and>
   (\<exists>c. get_overall_confidence photo = Inr c)"
  by (simp add: get_overall_confidence_def truediv_def)

theorem overall_confidence_empty_witness:
  "get_overall_confidence (sample_photo []) = Inr 0 \<and>
   get_overall_confidence (sample_photo [sample_pass, sample_fail]) = Inr 0.6"
  using overall_confidence_empty [of "sample_photo []"]
  by (simp add: get_overall_confidence_def truediv_def sample_photo_def sample_pass_def
        sample_fail_def)


section \<open>The brightness check on solid images\<close>

lemma sum_list_indicator_upt:
  "sum_list (map (\<lambda>i. if i = k then c else (0::real)) [a..<b]) = (if a \<le> k \<and> k < b then c else 0)"
  by (induction b) auto

lemma calcHist_replicate:
  "calcHist (replicate n c) = map (\<lambda>i. if i = unat c then real n else 0) [0..<256]"
  unfolding calcHist_def
  by (rule map_cong) (auto simp: filter_replicate)

lemma hist_sum_replicate: "sum_list (calcHist (replicate n (c :: 8 word))) = real n"
proof -
  have "unat c < 256" using unsigned_less [of c] by simp
  then show ?thesis by (simp only: calcHist_replicate sum_list_indicator_upt) simp
qed

lemma hist_normalized_replicate:
  assumes "n > 0"
  shows "map (\<lambda>x. x / sum_list (calcHist (replicate n (c :: 8 word)))) (calcHist (replicate n c))
           = map (\<lambda>i. if i = unat c then 1 else 0) [0..<256]"
proof -
  have "map (\<lambda>x. x / real n) (calcHist (replicate n c))
          = map (\<lambda>i. if i = unat c then 1 else 0) [0..<256]"
    unfolding calcHist_replicate map_map
    by (rule map_cong) (use assms in auto)
  then show ?thesis by (simp only: hist_sum_replicate)
qed

lemma overexposed_replicate:
  "sum_list (drop 240 (map (\<lambda>i. if i = k then 1 else (0::real)) [0..<256])) =
     (if 240 \<le> k \<and> k < 256 then 1 else 0)"
  by (simp only: drop_map drop_upt sum_list_indicator_upt) simp

lemma underexposed_replicate:
  "sum_list (take 15 (map (\<lambda>i. if i = k then 1 else (0::real)) [0..<256])) =
     (if k < 15 then 1 else 0)"
  by (simp only: take_map take_upt sum_list_indicator_upt) simp

lemma mean_replicate:
  "n > 0 \<Longrightarrow> real (sum_list (map unat (replicate n (c :: 8 word)))) / real n = real (unat c)"
  by (simp add: sum_list_replicate)

lemma solid_pixels:
  assumes "px \<noteq> []" "\<forall>p \<in> set px. p = c"
  shows "px = replicate (length px) c \<and> length px > 0"
  using assms by (simp add: replicate_length_same)

lemma validate_image_data_ok:
  assumes "image_data photo = Some im" "concat (get_grayscale_image cvt im) \<noteq> []"
  shows "validate_image_data photo = Inr im"
proof -
  have "length (concat (get_grayscale_image cvt im)) \<noteq> 0" using assms(2) by simp
  then have "img_size im \<noteq> 0"
    by (cases im) (simp_all add: get_grayscale_image_def length_concat comp_def)
  then show ?thesis using assms(1) by (simp add: validate_image_data_def)
qed

lemma brightness_scores_solid:
  assumes "concat (get_grayscale_image cvt im) = replicate n c" "n > 0"
  shows "brightness_scores cvt default_brightness im =
    (let m = real (unat c);
         ov = (if 240 \<le> unat c \<and> unat c < 256 then 1 else 0);
         un = (if unat c < 15 then 1 else 0);
         bs = (if 50 \<le> m \<and> m \<le> 230 then 1
               else max 0 (1 - (if m < 50 then 50 - m else m - 230) / 30));
         es = 1 - min 1 ((ov + un) * 2);
         conf = bs * 0.7 + es * 0.3;
         valid = (conf \<ge> 0.5)
     in (valid, conf,
         (if valid then ''Belichting is correct''
          else if m < 50 then ''Foto is te donker. Zorg voor meer licht''
          else if m > 230 then ''Foto is te licht. Verminder de belichting''
          else if ov > 0.05 then ''Te veel overbelichting gedetecteerd''
          else if un > 0.05 then ''Te veel onderbelichting gedetecteerd''
          else ''Belichting is niet optimaal''),
         Some [(''mean_brightness'', DNum m), (''overexposed_ratio'', DNum ov),
               (''underexposed_ratio'', DNum un), (''brightness_score'', DNum bs),
               (''extreme_score'', DNum es)]))"
  unfolding brightness_scores_def Let_def assms(1)
  by (simp only: length_replicate mean_replicate [OF assms(2)]
        hist_normalized_replicate [OF assms(2)] overexposed_replicate underexposed_replicate
        default_brightness_def BrightnessValidator.simps BaseValidator.simps
        BRIGHTNESS_MIN_def BRIGHTNESS_MAX_def BRIGHTNESS_THRESHOLD_def)

lemma default_brightness_init:
  "BrightnessValidator_init BRIGHTNESS_THRESHOLD BRIGHTNESS_MIN BRIGHTNESS_MAX = Inr default_brightness"
  by (simp add: BrightnessValidator_init_def BaseValidator_init_def bindE_def
        default_brightness_def BRIGHTNESS_THRESHOLD_def)

lemma brightness_validate_solid:
  assumes "image_data photo = Some im"
    and "concat (get_grayscale_image cvt im) \<noteq> []"
    and "\<forall>p \<in> set (concat (get_grayscale_image cvt im)). p = c"
  shows "BrightnessValidator_validate cvt default_brightness photo fd =
           create_result ''BrightnessValidator'' (brightness_scores cvt default_brightness im) \<and>
         (\<exists>n>0. concat (get_grayscale_image cvt im) = replicate n c)"
proof
  show "BrightnessValidator_validate cvt default_brightness photo fd =
           create_result ''BrightnessValidator'' (brightness_scores cvt default_brightness im)"
    using validate_image_data_ok [OF assms(1,2)]
    by (simp add: BrightnessValidator_validate_def bindE_def)
  from solid_pixels [OF assms(2,3)]
  show "\<exists>n>0. concat (get_grayscale_image cvt im) = replicate n c" by blast
qed

text \<open>
  C7. With the default configuration (threshold 0.5, range 50 to 230), the brightness check
  on an image whose grayscale pixels all have the value \<open>c\<close> returns: for \<open>c = 140\<close> a
  passing result with confidence 1 (above 0.7); for \<open>c = 20\<close> a failing result with
  confidence 0.3 whose message says the photo is too dark; for \<open>c = 250\<close> a failing result
  with confidence \<open>0.7 * (1 - 20/30)\<close> whose message says the photo is too bright. The
  confidence is \<open>0.7 * brightness_score + 0.3 * extreme_score\<close> as computed by
  \<^const>\<open>brightness_scores\<close>.
\<close>

theorem brightness_solid_images:
  assumes "image_data photo = Some im"
    and "concat (get_grayscale_image cvt im) \<noteq> []"
    and "\<forall>p \<in> set (concat (get_grayscale_image cvt im)). p = c"
  shows "BrightnessValidator_init BRIGHTNESS_THRESHOLD BRIGHTNESS_MIN BRIGHTNESS_MAX
           = Inr default_brightness \<and>
         (c = 140 \<longrightarrow>
          (\<exists>r. BrightnessValidator_validate cvt default_brightness photo fd = Inr r \<and>
               is_valid r \<and> confidence r > 0.7 \<and> confidence r = 1 \<and>
               message r = ''Belichting is correct'')) \<and>
         (c = 20 \<longrightarrow>
          (\<exists>r. BrightnessValidator_validate cvt default_brightness photo fd = Inr r \<and>
               \<not> is_valid r \<and> confidence r = 0.3 \<and>
               message r = ''Foto is te donker. Zorg voor meer licht'')) \<and>
         (c = 250 \<longrightarrow>
          (\<exists>r. BrightnessValidator_validate cvt default_brightness photo fd = Inr r \<and>
               \<not> is_valid r \<and> confidence r = 0.7 * (1 - 20 / 30) \<and>
               message r = ''Foto is te licht. Verminder de belichting''))"
proof -
  from brightness_validate_solid [OF assms, of fd]
  obtain n where v: "BrightnessValidator_validate cvt default_brightness photo fd =
           create_result ''BrightnessValidator'' (brightness_scores cvt default_brightness im)"
    and n: "n > 0" "concat (get_grayscale_image cvt im) = replicate n c"
    by blast
  note sc = brightness_scores_solid [OF n(2) n(1)]
  show ?thesis
    unfolding v sc
    by (simp add: create_result_def ValidationResult_init_def default_brightness_init)
qed

theorem brightness_solid_images_witness:
  "(\<exists>r. BrightnessValidator_validate sample_bgr2gray default_brightness
          (sample_photo []) None = Inr r \<and> is_valid r \<and> confidence r = 1) \<and>
   (\<exists>r. BrightnessValidator_validate sample_bgr2gray default_brightness dark_photo None = Inr r \<and>
        \<not> is_valid r \<and> message r = ''Foto is te donker. Zorg voor meer licht'') \<and>
   (\<exists>r. BrightnessValidator_validate sample_bgr2gray default_brightness bright_photo None = Inr r \<and>
        \<not> is_valid r \<and> message r = ''Foto is te licht. Verminder de belichting'')"
proof -
  have g: "sample_bgr2gray (20, 20, 20) = 20"
    by (simp add: sample_bgr2gray_def)
  have a: "image_data (sample_photo []) = Some (Gray [[140, 140], [140, 140]])"
    by (simp add: sample_photo_def)
  have b: "image_data dark_photo = Some (Color [[(20, 20, 20), (20, 20, 20)]])"
    by (simp add: dark_photo_def)
  have c: "image_data bright_photo = Some (Gray [[250], [250], [250]])"
    by (simp add: bright_photo_def)
  have ga: "concat (get_grayscale_image sample_bgr2gray (Gray [[140, 140], [140, 140]]))
              = [140, 140, 140, 140]"
    by (simp add: get_grayscale_image_def)
  have gb: "concat (get_grayscale_image sample_bgr2gray (Color [[(20, 20, 20), (20, 20, 20)]]))
              = [20, 20]"
    by (simp add: get_grayscale_image_def g)
  have gc: "concat (get_grayscale_image sample_bgr2gray (Gray [[250], [250], [250]]))
              = [250, 250, 250]"
    by (simp add: get_grayscale_image_def)
  have A: "\<exists>r. BrightnessValidator_validate sample_bgr2gray default_brightness
          (sample_photo []) None = Inr r \<and> is_valid r \<and> confidence r = 1"
    using brightness_solid_images [OF a, of sample_bgr2gray 140 None]
    unfolding ga by auto
  have B: "\<exists>r. BrightnessValidator_validate sample_bgr2gray default_brightness dark_photo None = Inr r \<and>
        \<not> is_valid r \<and> message r = ''Foto is te donker. Zorg voor meer licht''"
    using brightness_solid_images [OF b, of sample_bgr2gray 20 None]
    unfolding gb by auto
  have C: "\<exists>r. BrightnessValidator_validate sample_bgr2gray default_brightness bright_photo None = Inr r \<and>
        \<not> is_valid r \<and> message r = ''Foto is te licht. Verminder de belichting''"
    using brightness_solid_images [OF c, of sample_bgr2gray 250 None]
    unfolding gc by auto
  from A B C show ?thesis by blast
qed






section \<open>The orchestrator\<close>

lemma add_validation_result_image:
  "image_data (add_validation_result q r) = image_data q"
  by (simp add: add_validation_result_def)

lemma add_validation_result_results:
  "validation_results (add_validation_result q r) = validation_results q @ [r]"
  by (simp add: add_validation_result_def)

lemma run_validators_results:
  assumes "\<forall>v \<in> set vs. \<forall>q. image_data q = image_data p0 \<longrightarrow>
             validate v q (Some fd) = validate v p0 (Some fd)"
    and "image_data q = image_data p0"
  shows "validation_results (run_validators vs fd q) =
           validation_results q @
             concat (map (\<lambda>v. case validate v p0 (Some fd) of Inl e \<Rightarrow> [] | Inr r \<Rightarrow> [r]) vs) \<and>
         image_data (run_validators vs fd q) = image_data p0"
  using assms
proof (induction vs arbitrary: q)
  case Nil
  then show ?case by simp
next
  case (Cons v vs)
  have eq: "validate v q (Some fd) = validate v p0 (Some fd)"
    using Cons.prems by (meson list.set_intros(1))
  have rest: "\<forall>v \<in> set vs. \<forall>q. image_data q = image_data p0 \<longrightarrow>
             validate v q (Some fd) = validate v p0 (Some fd)"
    using Cons.prems(1) by (meson list.set_intros(2))
  show ?case
  proof (cases "validate v p0 (Some fd)")
    case (Inl e)
    with eq Cons.IH [OF rest Cons.prems(2)] show ?thesis by simp
  next
    case (Inr r)
    have "image_data (add_validation_result q r) = image_data p0"
      using Cons.prems(2) by (simp add: add_validation_result_image)
    from Cons.IH [OF rest this] Inr eq show ?thesis
      by (simp add: add_validation_result_results)
  qed
qed

lemma returned_length:
  "length (concat (map (\<lambda>v. case f v of Inl e \<Rightarrow> [] | Inr r \<Rightarrow> [r]) vs)) \<le> length vs \<and>
   (length (concat (map (\<lambda>v. case f v of Inl e \<Rightarrow> [] | Inr r \<Rightarrow> [r]) vs)) = length vs
      \<longleftrightarrow> (\<forall>v \<in> set vs. \<exists>r. f v = Inr r))"
proof (induction vs)
  case Nil
  then show ?case by simp
next
  case (Cons v vs)
  then show ?case by (cases "f v") auto
qed

lemma update_status_image: "image_data (update_status p) = image_data p"
  by (simp add: update_status_def)

lemma update_status_idem: "update_status (update_status p) = update_status p"
  by (simp add: update_status_def Photo_is_valid_def)

text \<open>
  C1 (as the code has it). Once the face detection has returned, \<^verbatim>\<open>validate_photo\<close> returns
  a photo whatever the registered checks do: a check that raises is skipped, it never aborts
  the run. The results appended to the photo are exactly the results of the checks that
  returned, in registration order, and nothing is appended for a check that raised. So at
  most N results are appended for N checks, exactly N precisely when no check raises, and
  the status of the returned photo is the recomputed one. The checks read the image of the
  photo only, which is the second hypothesis.
\<close>

theorem validate_photo_appends_returned_results:
  assumes "face_detection_model service (image_data photo) = Inr fd"
    and "\<forall>v \<in> set (validators service). \<forall>q. image_data q = image_data photo \<longrightarrow>
           validate v q (Some fd) = validate v photo (Some fd)"
  shows "\<exists>photo'. validate_photo service photo = Inr photo' \<and>
           validation_results photo' = validation_results photo @
             concat (map (\<lambda>v. case validate v photo (Some fd) of Inl e \<Rightarrow> [] | Inr r \<Rightarrow> [r])
                       (validators service)) \<and>
           length (validation_results photo') \<le>
             length (validation_results photo) + length (validators service) \<and>
           (length (validation_results photo') =
              length (validation_results photo) + length (validators service)
            \<longleftrightarrow> (\<forall>v \<in> set (validators service). \<exists>r. validate v photo (Some fd) = Inr r)) \<and>
           update_status photo' = photo'"
proof -
  let ?run = "run_validators (validators service) fd photo"
  have v: "validate_photo service photo = Inr (update_status ?run)"
    using assms(1) by (simp add: validate_photo_def bindE_def)
  have r: "validation_results (update_status ?run) = validation_results photo @
             concat (map (\<lambda>v. case validate v photo (Some fd) of Inl e \<Rightarrow> [] | Inr r \<Rightarrow> [r])
                       (validators service))"
    using run_validators_results [OF assms(2), of photo] by (simp add: update_status_results)
  note l = returned_length [of "\<lambda>v. validate v photo (Some fd)" "validators service"]
  show ?thesis
    unfolding v using r l by (simp add: update_status_idem)
qed

lemma expression_image_only:
  "image_data q = image_data p \<Longrightarrow>
     FacialExpressionValidator_validate v q fd = FacialExpressionValidator_validate v p fd"
  by (simp add: FacialExpressionValidator_validate_def validate_image_data_def)

lemma face_position_image_only:
  "image_data q = image_data p \<Longrightarrow>
     FacePositionValidator_validate v q fd = FacePositionValidator_validate v p fd"
  by (simp add: FacePositionValidator_validate_def validate_image_data_def)

lemma sample_image_ok:
  "image_data q = Some (Gray [[140, 140], [140, 140]]) \<Longrightarrow>
     validate_image_data q = Inr (Gray [[140, 140], [140, 140]])"
  by (simp add: validate_image_data_def)

lemma sample_photo_image [simp]:
  "image_data (sample_photo rs) = Some (Gray [[140, 140], [140, 140]])"
  by (simp add: sample_photo_def)

lemma sample_expression_run:
  "image_data q = Some (Gray [[140, 140], [140, 140]]) \<Longrightarrow>
   FacialExpressionValidator_validate default_expression q (Some corner_face) =
     Inr \<lparr>validator_name = ''FacialExpressionValidator'', is_valid = False, confidence = 0,
          message = ''Gezichtskenmerken konden niet worden gedetecteerd'',
          details = Some [(''error'', DStr ''no_landmarks'')]\<rparr>"
  by (simp add: FacialExpressionValidator_validate_def sample_image_ok bindE_def corner_face_def
        create_result_def ValidationResult_init_def)

lemma sample_position_raises:
  "image_data q = Some (Gray [[140, 140], [140, 140]]) \<Longrightarrow>
   FacePositionValidator_validate zero_tolerance_position q (Some corner_face) =
     Inl (ZeroDivisionError ''division by zero'')"
  by (simp add: FacePositionValidator_validate_def sample_image_ok bindE_def corner_face_def
        get_face_center_def get_face_size_def face_position_scores_def truediv_def
        zero_tolerance_position_def)


text \<open>With a check that raises, fewer results than registered checks are appended: the
  face position check with a zero centre tolerance divides by zero on an off-centre face,
  and the run over two checks leaves one result.\<close>

theorem validate_photo_one_result_per_check_counterexample:
  "result_names (validate_photo sample_service (sample_photo [])) =
     Inr [''FacialExpressionValidator''] \<and>
   length (validators sample_service) = 2"
  by (simp add: result_names_def validate_photo_def bindE_def sample_service_def
        FacialExpressionValidator_object_def FacePositionValidator_object_def
        sample_expression_run sample_position_raises add_validation_result_def
        update_status_results sample_photo_def)

lemma ex_conj5_pick:
  "\<exists>x. A x \<and> B x \<and> C x \<and> D x \<and> E x \<Longrightarrow> (\<And>x. A x \<Longrightarrow> B x \<Longrightarrow> E x \<Longrightarrow> R) \<Longrightarrow> R"
  by blast

theorem validate_photo_appends_returned_results_witness:
  "\<exists>photo'. validate_photo sample_service (sample_photo [sample_pass]) = Inr photo' \<and>
     map validator_name (validation_results photo') = [''V1'', ''FacialExpressionValidator''] \<and>
     update_status photo' = photo'"
proof -
  have d: "face_detection_model sample_service (image_data (sample_photo [sample_pass]))
             = Inr corner_face"
    by (simp add: sample_service_def)
  have i: "\<forall>v \<in> set (validators sample_service). \<forall>q.
             image_data q = image_data (sample_photo [sample_pass]) \<longrightarrow>
             validate v q (Some corner_face) =
               validate v (sample_photo [sample_pass]) (Some corner_face)"
    by (auto simp: sample_service_def FacialExpressionValidator_object_def
          FacePositionValidator_object_def
          intro: expression_image_only face_position_image_only)
  from validate_photo_appends_returned_results [OF d i]
  obtain photo' where p: "validate_photo sample_service (sample_photo [sample_pass]) = Inr photo'"
    and r: "validation_results photo' = validation_results (sample_photo [sample_pass]) @
             concat (map (\<lambda>v. case validate v (sample_photo [sample_pass]) (Some corner_face) of
                                Inl e \<Rightarrow> [] | Inr r \<Rightarrow> [r])
                       (validators sample_service))"
    and u: "update_status photo' = photo'"
    by (rule ex_conj5_pick)
  have n: "map validator_name (validation_results photo') = [''V1'', ''FacialExpressionValidator'']"
    unfolding r
    by (simp add: sample_service_def FacialExpressionValidator_object_def
          FacePositionValidator_object_def sample_expression_run sample_position_raises
          sample_pass_def)
       (simp add: sample_photo_def sample_pass_def)
  show ?thesis
    by (rule exI [of _ photo']) (simp add: p n u)
qed


section \<open>Checks without a detected face\<close>

lemma no_face_detected_result:
  "no_face_detected name msg =
     Inr \<lparr>validator_name = name, is_valid = False, confidence = 0, message = msg,
          details = Some [(''error'', DStr ''no_face_detected'')]\<rparr>"
  by (simp add: no_face_detected_def create_result_def ValidationResult_init_def)

lemma background_not_analysed_result:
  "background_not_analysed =
     Inr \<lparr>validator_name = ''BackgroundValidator'', is_valid = True, confidence = 0.5,
          message = ''Achtergrond kon niet worden geanalyseerd'',
          details = Some [(''error'', DStr ''no_face_for_reference'')]\<rparr>"
  by (simp add: background_not_analysed_def create_result_def ValidationResult_init_def)

lemma face_position_no_face:
  assumes "validate_image_data photo = Inr im"
    and "face_detection = None \<or> (\<exists>fd. face_detection = Some fd \<and> \<not> face_found fd)"
  shows "FacePositionValidator_validate v photo face_detection =
           no_face_detected ''FacePositionValidator''
             ''Geen gezicht gedetecteerd. Zorg dat uw gezicht zichtbaar is''"
  using assms by (auto simp: FacePositionValidator_validate_def bindE_def)

lemma expression_no_face:
  assumes "validate_image_data photo = Inr im"
    and "face_detection = None \<or> (\<exists>fd. face_detection = Some fd \<and> \<not> face_found fd)"
  shows "FacialExpressionValidator_validate v photo face_detection =
           no_face_detected ''FacialExpressionValidator'' ''Geen gezicht gedetecteerd''"
  using assms by (auto simp: FacialExpressionValidator_validate_def bindE_def)

lemma eye_no_face:
  assumes "validate_image_data photo = Inr im"
    and "face_detection = None \<or> (\<exists>fd. face_detection = Some fd \<and> \<not> face_found fd)"
  shows "EyeVisibilityValidator_validate cvt v photo face_detection =
           no_face_detected ''EyeVisibilityValidator'' ''Geen gezicht gedetecteerd''"
  using assms by (auto simp: EyeVisibilityValidator_validate_def bindE_def)

lemma headwear_no_face:
  assumes "validate_image_data photo = Inr im"
    and "face_detection = None \<or> (\<exists>fd. face_detection = Some fd \<and> \<not> face_found fd)"
  shows "HeadwearValidator_validate cv v photo face_detection =
           no_face_detected ''HeadwearValidator'' ''Geen gezicht gedetecteerd''"
  using assms by (auto simp: HeadwearValidator_validate_def bindE_def)

lemma background_no_face:
  assumes "validate_image_data photo = Inr im"
    and "face_detection = None \<or> (\<exists>fd. face_detection = Some fd \<and> \<not> face_found fd)"
  shows "BackgroundValidator_validate cv v photo face_detection = background_not_analysed"
  using assms by (auto simp: BackgroundValidator_validate_def bindE_def)

text \<open>
  C2 (as the code has it). For a photo with non-empty image data and a detection result that
  is absent or has \<^verbatim>\<open>face_found = False\<close>, the face position, expression, eye visibility
  and headwear checks each return (they do not raise) a result with \<^verbatim>\<open>is_valid = False\<close>,
  confidence exactly 0 and a message that starts with "Geen gezicht gedetecteerd" (no face
  detected). The background check returns, on the same input, a passing result with
  confidence 0.5 and the message that the background could not be analysed.
\<close>

theorem no_face_results:
  assumes "validate_image_data photo = Inr im"
    and "face_detection = None \<or> (\<exists>fd. face_detection = Some fd \<and> \<not> face_found fd)"
  shows "(\<exists>r. FacePositionValidator_validate vp photo face_detection = Inr r \<and>
            \<not> is_valid r \<and> confidence r = 0 \<and> prefix ''Geen gezicht gedetecteerd'' (message r)) \<and>
         (\<exists>r. FacialExpressionValidator_validate ve photo face_detection = Inr r \<and>
            \<not> is_valid r \<and> confidence r = 0 \<and> message r = ''Geen gezicht gedetecteerd'') \<and>
         (\<exists>r. EyeVisibilityValidator_validate bgr2gray vy photo face_detection = Inr r \<and>
            \<not> is_valid r \<and> confidence r = 0 \<and> message r = ''Geen gezicht gedetecteerd'') \<and>
         (\<exists>r. HeadwearValidator_validate cv vh photo face_detection = Inr r \<and>
            \<not> is_valid r \<and> confidence r = 0 \<and> message r = ''Geen gezicht gedetecteerd'') \<and>
         (\<exists>r. BackgroundValidator_validate cv vb photo face_detection = Inr r \<and>
            is_valid r \<and> confidence r = 0.5 \<and>
            message r = ''Achtergrond kon niet worden geanalyseerd'')"
  unfolding face_position_no_face [OF assms] expression_no_face [OF assms]
    eye_no_face [OF assms] headwear_no_face [OF assms] background_no_face [OF assms]
    no_face_detected_result background_not_analysed_result
  by simp

text \<open>The background check without a face: passed, with confidence 0.5.\<close>

theorem background_no_face_counterexample:
  "BackgroundValidator_validate sample_opencv \<lparr>threshold = 0.5\<rparr> (sample_photo []) (Some no_face) =
     Inr \<lparr>validator_name = ''BackgroundValidator'', is_valid = True, confidence = 0.5,
          message = ''Achtergrond kon niet worden geanalyseerd'',
          details = Some [(''error'', DStr ''no_face_for_reference'')]\<rparr>"
  by (simp add: BackgroundValidator_validate_def bindE_def validate_image_data_def
        sample_photo_def no_face_def background_not_analysed_result)

theorem no_face_results_witness:
  "(\<exists>r. FacePositionValidator_validate zero_tolerance_position (sample_photo []) (Some no_face)
          = Inr r \<and> \<not> is_valid r \<and> confidence r = 0) \<and>
   (\<exists>r. FacialExpressionValidator_validate default_expression (sample_photo []) None
          = Inr r \<and> \<not> is_valid r \<and> confidence r = 0) \<and>
   (\<exists>r. BackgroundValidator_validate sample_opencv \<lparr>threshold = 0.5\<rparr> (sample_photo []) None
          = Inr r \<and> is_valid r)"
proof -
  have im: "validate_image_data (sample_photo []) = Inr (Gray [[140, 140], [140, 140]])"
    by (simp add: validate_image_data_def sample_photo_def)
  have a: "Some no_face = None \<or> (\<exists>fd. Some no_face = Some fd \<and> \<not> face_found fd)"
    by (simp add: no_face_def)
  have b: "(None :: FaceDetectionResult option) = None \<or>
           (\<exists>fd. None = Some fd \<and> \<not> face_found fd)"
    by simp
  from no_face_results [OF im a, where vp = zero_tolerance_position and ve = default_expression and bgr2gray = sample_bgr2gray
      and vy = "\<lparr>threshold = 0.4, min_eye_aspect_ratio = 0.12\<rparr>" and cv = sample_opencv
      and vh = "\<lparr>threshold = 0.5\<rparr>" and vb = "\<lparr>threshold = 0.5\<rparr>"]
  have 1: "\<exists>r. FacePositionValidator_validate zero_tolerance_position (sample_photo [])
                 (Some no_face) = Inr r \<and> \<not> is_valid r \<and> confidence r = 0"
    by auto
  from no_face_results [OF im b, where vp = zero_tolerance_position and ve = default_expression and bgr2gray = sample_bgr2gray
      and vy = "\<lparr>threshold = 0.4, min_eye_aspect_ratio = 0.12\<rparr>" and cv = sample_opencv
      and vh = "\<lparr>threshold = 0.5\<rparr>" and vb = "\<lparr>threshold = 0.5\<rparr>"]
  have 2: "\<exists>r. FacialExpressionValidator_validate default_expression (sample_photo []) None
          = Inr r \<and> \<not> is_valid r \<and> confidence r = 0"
    and 3: "\<exists>r. BackgroundValidator_validate sample_opencv \<lparr>threshold = 0.5\<rparr> (sample_photo []) None
          = Inr r \<and> is_valid r"
    by auto
  from 1 2 3 show ?thesis by (intro conjI)
qed


section \<open>Thresholds of the validators\<close>

lemma BaseValidator_init_if:
  "BaseValidator_init t =
     (if 0 \<le> t \<and> t \<le> 1 then Inr \<lparr>threshold = t\<rparr>
      else Inl (ValueError ''Threshold must be between 0.0 and 1.0''))"
  by (simp add: BaseValidator_init_def)

text \<open>
  C8. For each of the nine validator classes the constructor called with threshold \<open>t\<close>
  succeeds iff \<open>0 \<le> t \<le> 1\<close>, and then stores \<open>t\<close> itself; otherwise it fails with the
  \<^verbatim>\<open>ValueError\<close> of the base class. The threshold setter, shared by all classes, succeeds
  iff \<open>0 \<le> t \<le> 1\<close> and then stores \<open>t\<close>; otherwise it raises the same error and leaves the
  validator, with its stored threshold, unchanged. No value is clamped.
\<close>

theorem threshold_range_checked:
  "BrightnessValidator_init t mn mx =
     (if 0 \<le> t \<and> t \<le> 1
      then Inr \<lparr>threshold = t, min_brightness = mn, max_brightness = mx\<rparr>
      else Inl (ValueError ''Threshold must be between 0.0 and 1.0'')) \<and>
   SharpnessValidator_init t mv =
     (if 0 \<le> t \<and> t \<le> 1 then Inr \<lparr>threshold = t, min_variance = mv\<rparr>
      else Inl (ValueError ''Threshold must be between 0.0 and 1.0'')) \<and>
   FacePositionValidator_init t tol smin smax =
     (if 0 \<le> t \<and> t \<le> 1
      then Inr \<lparr>threshold = t, center_tolerance = tol, min_size_ratio = smin,
                max_size_ratio = smax\<rparr>
      else Inl (ValueError ''Threshold must be between 0.0 and 1.0'')) \<and>
   FacialExpressionValidator_init t mo =
     (if 0 \<le> t \<and> t \<le> 1 then Inr \<lparr>threshold = t, mouth_open_threshold = mo\<rparr>
      else Inl (ValueError ''Threshold must be between 0.0 and 1.0'')) \<and>
   EyeVisibilityValidator_init t ear =
     (if 0 \<le> t \<and> t \<le> 1 then Inr \<lparr>threshold = t, min_eye_aspect_ratio = ear\<rparr>
      else Inl (ValueError ''Threshold must be between 0.0 and 1.0'')) \<and>
   ReflectionValidator_init t bt rr =
     (if 0 \<le> t \<and> t \<le> 1
      then Inr \<lparr>threshold = t, brightness_threshold = bt, max_reflection_ratio = rr\<rparr>
      else Inl (ValueError ''Threshold must be between 0.0 and 1.0'')) \<and>
   ShadowValidator_init t dt sr =
     (if 0 \<le> t \<and> t \<le> 1
      then Inr \<lparr>threshold = t, darkness_threshold = dt, max_shadow_ratio = sr\<rparr>
      else Inl (ValueError ''Threshold must be between 0.0 and 1.0'')) \<and>
   HeadwearValidator_init t =
     (if 0 \<le> t \<and> t \<le> 1 then Inr \<lparr>threshold = t\<rparr>
      else Inl (ValueError ''Threshold must be between 0.0 and 1.0'')) \<and>
   BackgroundValidator_init t =
     (if 0 \<le> t \<and> t \<le> 1 then Inr \<lparr>threshold = t\<rparr>
      else Inl (ValueError ''Threshold must be between 0.0 and 1.0'')) \<and>
   (fst (threshold_setter v t) = None \<longleftrightarrow> 0 \<le> t \<and> t \<le> 1) \<and>
   (0 \<le> t \<and> t \<le> 1 \<longrightarrow> snd (threshold_setter v t) = v\<lparr>threshold := t\<rparr>) \<and>
   (\<not> (0 \<le> t \<and> t \<le> 1) \<longrightarrow>
      threshold_setter v t = (Some (ValueError ''Threshold must be between 0.0 and 1.0''), v))"
  by (simp add: BrightnessValidator_init_def SharpnessValidator_init_def
        FacePositionValidator_init_def FacialExpressionValidator_init_def
        EyeVisibilityValidator_init_def ReflectionValidator_init_def ShadowValidator_init_def
        HeadwearValidator_init_def BackgroundValidator_init_def BaseValidator_init_if
        bindE_def threshold_setter_def)

theorem threshold_range_checked_witness:
  "BrightnessValidator_init 1.5 50 230 =
     Inl (ValueError ''Threshold must be between 0.0 and 1.0'') \<and>
   threshold_setter default_brightness 1.5 =
     (Some (ValueError ''Threshold must be between 0.0 and 1.0''), default_brightness) \<and>
   threshold_setter default_brightness (- 0.1) =
     (Some (ValueError ''Threshold must be between 0.0 and 1.0''), default_brightness) \<and>
   threshold (snd (threshold_setter default_brightness 0.85)) = 0.85 \<and>
   BackgroundValidator_init 0.8 = Inr \<lparr>threshold = 0.8\<rparr>"
proof -
  note a = threshold_range_checked
    [of "1.5" 50 230 50 "0.3" "0.05" "0.7" "0.5" "0.12" 250 "0.12" 35 "0.2" default_brightness]
  note b = threshold_range_checked
    [of "- 0.1" 50 230 50 "0.3" "0.05" "0.7" "0.5" "0.12" 250 "0.12" 35 "0.2" default_brightness]
  note c = threshold_range_checked
    [of "0.85" 50 230 50 "0.3" "0.05" "0.7" "0.5" "0.12" 250 "0.12" 35 "0.2" default_brightness]
  note d = threshold_range_checked
    [of "0.8" 50 230 50 "0.3" "0.05" "0.7" "0.5" "0.12" 250 "0.12" 35 "0.2" default_brightness]
  have 1: "BrightnessValidator_init 1.5 50 230 =
     Inl (ValueError ''Threshold must be between 0.0 and 1.0'')"
    using a by simp
  have 2: "threshold_setter default_brightness 1.5 =
     (Some (ValueError ''Threshold must be between 0.0 and 1.0''), default_brightness)"
    using a by simp
  have 3: "threshold_setter default_brightness (- 0.1) =
     (Some (ValueError ''Threshold must be between 0.0 and 1.0''), default_brightness)"
    using b by simp
  have 4: "threshold (snd (threshold_setter default_brightness 0.85)) = 0.85"
    using c by simp
  have 5: "BackgroundValidator_init 0.8 = Inr \<lparr>threshold = 0.8\<rparr>"
    using d by simp
  from 1 2 3 4 5 show ?thesis by (intro conjI)
qed



section \<open>The default validators\<close>

lemma create_result_name: "create_result n args = Inr r \<Longrightarrow> validator_name r = n"
  by (auto simp: create_result_def ValidationResult_init_def split: prod.splits if_splits)

lemma bindE_create_result_name: "bindE m (create_result n) = Inr r \<Longrightarrow> validator_name r = n"
  by (auto simp: bindE_def split: sum.splits dest: create_result_name)

lemma no_face_detected_name: "no_face_detected n msg = Inr r \<Longrightarrow> validator_name r = n"
  by (auto simp: no_face_detected_def dest: create_result_name)

lemma brightness_name:
  "BrightnessValidator_validate cvt v p fd = Inr r \<Longrightarrow> validator_name r = ''BrightnessValidator''"
  by (auto simp: BrightnessValidator_validate_def bindE_def split: sum.splits
        dest: create_result_name)

lemma sharpness_name:
  "SharpnessValidator_validate cv v p fd = Inr r \<Longrightarrow> validator_name r = ''SharpnessValidator''"
  by (auto simp: SharpnessValidator_validate_def bindE_def split: sum.splits
        dest: create_result_name)

lemma reflection_name:
  "ReflectionValidator_validate cv v p fd = Inr r \<Longrightarrow> validator_name r = ''ReflectionValidator''"
  by (auto simp: ReflectionValidator_validate_def bindE_def split: sum.splits
        dest: create_result_name)

lemma shadow_name:
  "ShadowValidator_validate cv v p fd = Inr r \<Longrightarrow> validator_name r = ''ShadowValidator''"
  by (auto simp: ShadowValidator_validate_def bindE_def split: sum.splits
        dest: create_result_name)

lemma face_position_name:
  "FacePositionValidator_validate v p fd = Inr r \<Longrightarrow>
     validator_name r = ''FacePositionValidator''"
  unfolding FacePositionValidator_validate_def
  by (auto simp: bindE_def
        split: sum.splits option.splits if_splits prod.splits
        dest: create_result_name no_face_detected_name)

lemma expression_name:
  "FacialExpressionValidator_validate v p fd = Inr r \<Longrightarrow>
     validator_name r = ''FacialExpressionValidator''"
  unfolding FacialExpressionValidator_validate_def
  by (auto simp: bindE_def
        split: sum.splits option.splits if_splits
        dest: create_result_name no_face_detected_name)

lemma eye_name:
  "EyeVisibilityValidator_validate cvt v p fd = Inr r \<Longrightarrow>
     validator_name r = ''EyeVisibilityValidator''"
  unfolding EyeVisibilityValidator_validate_def
  by (auto simp: bindE_def
        split: sum.splits option.splits if_splits
        dest: create_result_name no_face_detected_name)

lemma brightness_image_only:
  "image_data q = image_data p \<Longrightarrow>
     BrightnessValidator_validate cvt v q fd = BrightnessValidator_validate cvt v p fd"
  by (simp add: BrightnessValidator_validate_def validate_image_data_def)

lemma sharpness_image_only:
  "image_data q = image_data p \<Longrightarrow>
     SharpnessValidator_validate cv v q fd = SharpnessValidator_validate cv v p fd"
  by (simp add: SharpnessValidator_validate_def validate_image_data_def)

lemma reflection_image_only:
  "image_data q = image_data p \<Longrightarrow>
     ReflectionValidator_validate cv v q fd = ReflectionValidator_validate cv v p fd"
  by (simp add: ReflectionValidator_validate_def validate_image_data_def)

lemma shadow_image_only:
  "image_data q = image_data p \<Longrightarrow>
     ShadowValidator_validate cv v q fd = ShadowValidator_validate cv v p fd"
  by (simp add: ShadowValidator_validate_def validate_image_data_def)

lemma eye_image_only:
  "image_data q = image_data p \<Longrightarrow>
     EyeVisibilityValidator_validate cvt v q fd = EyeVisibilityValidator_validate cvt v p fd"
  by (simp add: EyeVisibilityValidator_validate_def validate_image_data_def)


lemma returned_names:
  assumes "\<forall>v \<in> set vs. \<forall>r. validate v p (Some fd) = Inr r \<longrightarrow> validator_name r = get_name v"
  shows "map validator_name
           (concat (map (\<lambda>v. case validate v p (Some fd) of Inl e \<Rightarrow> [] | Inr r \<Rightarrow> [r]) vs)) =
         map get_name (filter (\<lambda>v. \<not> isl (validate v p (Some fd))) vs)"
  using assms
proof (induction vs)
  case Nil
  then show ?case by simp
next
  case (Cons v vs)
  have rest: "\<forall>v \<in> set vs. \<forall>r. validate v p (Some fd) = Inr r \<longrightarrow> validator_name r = get_name v"
    using Cons.prems by (meson list.set_intros(2))
  note ih = Cons.IH [OF rest]
  show ?case
  proof (cases "validate v p (Some fd)")
    case (Inl e)
    with ih show ?thesis by simp
  next
    case (Inr r)
    have "validator_name r = get_name v"
      using Cons.prems Inr by (meson list.set_intros(1))
    with ih Inr show ?thesis by simp
  qed
qed

lemma create_default_validators_eq: "create_default_validators cv = Inr (default_objects cv)"
  by (simp add: create_default_validators_def default_objects_def bindE_def
        BaseValidator_init_def BrightnessValidator_init_def SharpnessValidator_init_def
        FacePositionValidator_init_def FacialExpressionValidator_init_def
        EyeVisibilityValidator_init_def ReflectionValidator_init_def ShadowValidator_init_def
        default_brightness_def default_expression_def
        BRIGHTNESS_THRESHOLD_def SHARPNESS_THRESHOLD_def FACE_POSITION_THRESHOLD_def
        EXPRESSION_THRESHOLD_def EYE_VISIBILITY_THRESHOLD_def REFLECTION_THRESHOLD_def
        SHADOW_THRESHOLD_def)

lemma default_objects_names:
  "map get_name (default_objects cv) =
     [''BrightnessValidator'', ''SharpnessValidator'', ''FacePositionValidator'',
      ''FacialExpressionValidator'', ''EyeVisibilityValidator'', ''ReflectionValidator'',
      ''ShadowValidator'']"
  by (simp add: default_objects_def BrightnessValidator_object_def SharpnessValidator_object_def
        FacePositionValidator_object_def FacialExpressionValidator_object_def
        EyeVisibilityValidator_object_def ReflectionValidator_object_def
        ShadowValidator_object_def)

lemma default_objects_named:
  "\<forall>v \<in> set (default_objects cv). \<forall>r. validate v p fd = Inr r \<longrightarrow> validator_name r = get_name v"
  by (auto simp: default_objects_def BrightnessValidator_object_def SharpnessValidator_object_def
        FacePositionValidator_object_def FacialExpressionValidator_object_def
        EyeVisibilityValidator_object_def ReflectionValidator_object_def
        ShadowValidator_object_def
        dest: brightness_name sharpness_name face_position_name expression_name eye_name
          reflection_name shadow_name)

lemma default_objects_image_only:
  "\<forall>v \<in> set (default_objects cv). \<forall>q. image_data q = image_data p \<longrightarrow>
     validate v q fd = validate v p fd"
  by (auto simp: default_objects_def BrightnessValidator_object_def SharpnessValidator_object_def
        FacePositionValidator_object_def FacialExpressionValidator_object_def
        EyeVisibilityValidator_object_def ReflectionValidator_object_def
        ShadowValidator_object_def
        intro: brightness_image_only sharpness_image_only face_position_image_only
          expression_image_only eye_image_only reflection_image_only shadow_image_only)

lemma default_run:
  assumes "model (image_data photo) = Inr fd"
  shows "\<exists>photo' rs.
           validate_photo \<lparr>face_detection_model = model, validators = default_objects cv\<rparr> photo
             = Inr photo' \<and>
           validation_results photo' = validation_results photo @ rs \<and>
           map validator_name rs =
             map get_name (filter (\<lambda>v. \<not> isl (validate v photo (Some fd))) (default_objects cv))"
proof -
  let ?vs = "default_objects cv"
  let ?rs = "concat (map (\<lambda>v. case validate v photo (Some fd) of Inl e \<Rightarrow> [] | Inr r \<Rightarrow> [r]) ?vs)"
  let ?run = "run_validators ?vs fd photo"
  have v: "validate_photo \<lparr>face_detection_model = model, validators = ?vs\<rparr> photo
             = Inr (update_status ?run)"
    using assms by (simp add: validate_photo_def bindE_def)
  have r: "validation_results (update_status ?run) = validation_results photo @ ?rs"
  proof -
    have io: "\<forall>v \<in> set ?vs. \<forall>q. image_data q = image_data photo \<longrightarrow>
                validate v q (Some fd) = validate v photo (Some fd)"
      by (rule default_objects_image_only)
    from run_validators_results [OF io refl] show ?thesis
      by (simp add: update_status_results)
  qed
  have n: "map validator_name ?rs =
             map get_name (filter (\<lambda>v. \<not> isl (validate v photo (Some fd))) ?vs)"
    by (rule returned_names [OF default_objects_named])
  from v r n show ?thesis by (intro exI conjI)
qed

text \<open>
  C5 (as the code has it). A service constructed without a validator list registers seven
  checks, in this order: brightness, sharpness, face position, expression, eye visibility,
  reflection, shadow. The headwear and background checks are not among them. A run, once the
  face detection has returned, calls the seven in that order: the results it appends carry,
  in order, the names of those of the seven checks that returned.
\<close>

theorem default_validators_seven:
  "\<exists>s. ValidationService_init cv model None = Inr s \<and>
        face_detection_model s = model \<and>
        map get_name (validators s) =
          [''BrightnessValidator'', ''SharpnessValidator'', ''FacePositionValidator'',
           ''FacialExpressionValidator'', ''EyeVisibilityValidator'', ''ReflectionValidator'',
           ''ShadowValidator''] \<and>
        (\<forall>photo fd. model (image_data photo) = Inr fd \<longrightarrow>
           (\<exists>photo' rs. validate_photo s photo = Inr photo' \<and>
              validation_results photo' = validation_results photo @ rs \<and>
              map validator_name rs =
                map get_name (filter (\<lambda>v. \<not> isl (validate v photo (Some fd))) (validators s))))"
proof -
  let ?s = "\<lparr>face_detection_model = model, validators = default_objects cv\<rparr>"
  have i: "ValidationService_init cv model None = Inr ?s"
    by (simp add: ValidationService_init_def create_default_validators_eq bindE_def)
  have r: "\<forall>photo fd. model (image_data photo) = Inr fd \<longrightarrow>
           (\<exists>photo' rs. validate_photo ?s photo = Inr photo' \<and>
              validation_results photo' = validation_results photo @ rs \<and>
              map validator_name rs =
                map get_name (filter (\<lambda>v. \<not> isl (validate v photo (Some fd))) (validators ?s)))"
    using default_run [of model _ _ cv] by simp
  show ?thesis
    by (rule exI [of _ ?s]) (use i r default_objects_names [of cv] in simp)
qed

text \<open>The default list has seven names, not nine.\<close>

theorem default_validators_nine_counterexample:
  "default_validator_names sample_opencv =
     Inr [''BrightnessValidator'', ''SharpnessValidator'', ''FacePositionValidator'',
          ''FacialExpressionValidator'', ''EyeVisibilityValidator'', ''ReflectionValidator'',
          ''ShadowValidator''] \<and>
   default_validator_names sample_opencv \<noteq>
     Inr [''BrightnessValidator'', ''SharpnessValidator'', ''FacePositionValidator'',
          ''FacialExpressionValidator'', ''EyeVisibilityValidator'', ''ReflectionValidator'',
          ''ShadowValidator'', ''HeadwearValidator'', ''BackgroundValidator'']"
  by (simp add: default_validator_names_def create_default_validators_eq default_objects_names)


lemma ex_conj4_pick:
  "\<exists>x. A x \<and> B x \<and> C x \<and> D x \<Longrightarrow> (\<And>x. A x \<Longrightarrow> C x \<Longrightarrow> D x \<Longrightarrow> R) \<Longrightarrow> R"
  by blast

lemma ex2_conj3_pick:
  "\<exists>x y. A x \<and> B x y \<and> C y \<Longrightarrow> (\<And>x. A x \<Longrightarrow> R) \<Longrightarrow> R"
  by blast

theorem default_validators_seven_witness:
  "\<exists>s photo'. ValidationService_init sample_opencv (\<lambda>im. Inr no_face) None = Inr s \<and>
     length (validators s) = 7 \<and>
     validate_photo s (sample_photo []) = Inr photo'"
proof -
  from default_validators_seven [of sample_opencv "\<lambda>im. Inr no_face"]
  obtain s where i: "ValidationService_init sample_opencv (\<lambda>im. Inr no_face) None = Inr s"
    and n: "map get_name (validators s) =
          [''BrightnessValidator'', ''SharpnessValidator'', ''FacePositionValidator'',
           ''FacialExpressionValidator'', ''EyeVisibilityValidator'', ''ReflectionValidator'',
           ''ShadowValidator'']"
    and r: "\<forall>photo fd. (Inr no_face :: error + FaceDetectionResult) = Inr fd \<longrightarrow>
           (\<exists>photo' rs. validate_photo s photo = Inr photo' \<and>
              validation_results photo' = validation_results photo @ rs \<and>
              map validator_name rs =
                map get_name (filter (\<lambda>v. \<not> isl (validate v photo (Some fd))) (validators s)))"
    by (rule ex_conj4_pick)
  have "length (map get_name (validators s)) = 7"
    unfolding n by simp
  then have l: "length (validators s) = 7" by simp
  have "\<exists>photo' rs. validate_photo s (sample_photo []) = Inr photo' \<and>
              validation_results photo' = validation_results (sample_photo []) @ rs \<and>
              map validator_name rs =
                map get_name (filter (\<lambda>v. \<not> isl (validate v (sample_photo []) (Some no_face)))
                                (validators s))"
    using r [rule_format, where photo = "sample_photo []" and fd = no_face] by simp
  then obtain photo' where p: "validate_photo s (sample_photo []) = Inr photo'"
    by (rule ex2_conj3_pick)
  from i l p show ?thesis by (intro exI conjI)
qed



section \<open>The eye visibility check\<close>

lemma eye_score_bounds: "0 \<le> eye_score e \<and> eye_score e \<le> 1"
proof -
  consider "e \<ge> 0.25" | "e < 0.25" "e \<ge> 0.22" | "e < 0.22" by linarith
  then show ?thesis
  proof cases
    case 1
    then show ?thesis by (simp add: eye_score_def)
  next
    case 2
    then show ?thesis by (simp add: eye_score_def field_simps)
  next
    case 3
    then show ?thesis by (simp add: eye_score_def field_simps)
  qed
qed

lemma eye_score_open: "e \<ge> 0.25 \<Longrightarrow> eye_score e = 1"
  by (simp add: eye_score_def)

lemma check_eye_coverage_bounds:
  "check_eye_coverage cvt im lms eye = Inr c \<Longrightarrow> 0 \<le> c \<and> c \<le> 1"
  by (auto simp: check_eye_coverage_def Let_def split: option.splits lm_value.splits if_splits)

lemma check_eye_coverage_low_glare:
  assumes "map_of lms (eye @ ''_eye_region'') = Some (LRegion x y w h)"
    and "img_size (crop im x y w h) \<noteq> 0"
    and "eye_bright_ratio cvt (crop im x y w h) \<le> 0.15"
  shows "check_eye_coverage cvt im lms eye = Inr 1"
  using assms by (simp add: check_eye_coverage_def Let_def)

lemma eye_validate_scores:
  assumes "validate_image_data photo = Inr im" "face_found fd" "landmarks fd = Some lms" "lms \<noteq> []"
  shows "EyeVisibilityValidator_validate cvt v photo (Some fd) =
           bindE (eye_scores cvt v im lms) (create_result ''EyeVisibilityValidator'')"
  using assms by (simp add: EyeVisibilityValidator_validate_def bindE_def)

lemma eye_scores_value:
  assumes "calculate_eye_aspect_ratio lms ''left'' = Inr el"
    and "calculate_eye_aspect_ratio lms ''right'' = Inr er"
    and "check_eye_coverage cvt im lms ''left'' = Inr cl"
    and "check_eye_coverage cvt im lms ''right'' = Inr cr"
  shows "\<exists>msg det. eye_scores cvt v im lms =
           Inr (((eye_score el + eye_score er) / 2 * 0.7 + (cl + cr) / 2 * 0.3 \<ge> threshold v
                 \<and> el \<ge> 0.22 \<and> er \<ge> 0.22),
                (eye_score el + eye_score er) / 2 * 0.7 + (cl + cr) / 2 * 0.3, msg, det)"
  using assms by (simp add: eye_scores_def bindE_def Let_def)

lemma eye_scores_closed:
  assumes "calculate_eye_aspect_ratio lms ''left'' = Inr el"
    and "calculate_eye_aspect_ratio lms ''right'' = Inr er"
    and "el < 0.22 \<or> er < 0.22"
    and "eye_scores cvt v im lms = Inr (valid, conf, msg, det)"
  shows "\<not> valid"
  using assms
  by (auto simp: eye_scores_def bindE_def Let_def split: sum.splits)


lemma eye_open_low_glare_passes:
  assumes "validate_image_data photo = Inr im" "face_found fd" "landmarks fd = Some lms" "lms \<noteq> []"
    and "threshold v \<le> 1"
    and "calculate_eye_aspect_ratio lms ''left'' = Inr el"
    and "calculate_eye_aspect_ratio lms ''right'' = Inr er"
    and "el \<ge> 0.25" "er \<ge> 0.25"
    and "check_eye_coverage cvt im lms ''left'' = Inr 1"
    and "check_eye_coverage cvt im lms ''right'' = Inr 1"
  shows "\<exists>r. EyeVisibilityValidator_validate cvt v photo (Some fd) = Inr r \<and>
             is_valid r \<and> confidence r = 1"
proof -
  from eye_scores_value [OF assms(6,7,10,11), of v]
  obtain msg det where "eye_scores cvt v im lms =
           Inr (((eye_score el + eye_score er) / 2 * 0.7 + (1 + 1) / 2 * 0.3 \<ge> threshold v
                 \<and> el \<ge> 0.22 \<and> er \<ge> 0.22),
                (eye_score el + eye_score er) / 2 * 0.7 + (1 + 1) / 2 * 0.3, msg, det)"
    by blast
  then have "eye_scores cvt v im lms = Inr (True, 1, msg, det)"
    using assms(5,8,9) by (simp add: eye_score_open)
  then show ?thesis
    unfolding eye_validate_scores [OF assms(1-4)]
    by (simp add: bindE_def create_result_def ValidationResult_init_def)
qed

lemma eye_closed_fails:
  assumes "validate_image_data photo = Inr im" "face_found fd" "landmarks fd = Some lms" "lms \<noteq> []"
    and "calculate_eye_aspect_ratio lms ''left'' = Inr el"
    and "calculate_eye_aspect_ratio lms ''right'' = Inr er"
    and "el < 0.22 \<or> er < 0.22"
    and "EyeVisibilityValidator_validate cvt v photo (Some fd) = Inr r"
  shows "\<not> is_valid r"
proof -
  from assms(8) have b: "bindE (eye_scores cvt v im lms) (create_result ''EyeVisibilityValidator'') = Inr r"
    unfolding eye_validate_scores [OF assms(1-4)] .
  then obtain valid conf msg det where sc: "eye_scores cvt v im lms = Inr (valid, conf, msg, det)"
    and cr: "create_result ''EyeVisibilityValidator'' (valid, conf, msg, det) = Inr r"
    by (cases "eye_scores cvt v im lms") (auto simp: bindE_def)
  from eye_scores_closed [OF assms(5,6,7) sc] have "\<not> valid" .
  with cr show ?thesis
    by (auto simp: create_result_def ValidationResult_init_def split: if_splits)
qed

lemma eye_closed_returns:
  assumes "validate_image_data photo = Inr im" "face_found fd" "landmarks fd = Some lms" "lms \<noteq> []"
    and "calculate_eye_aspect_ratio lms ''left'' = Inr el"
    and "calculate_eye_aspect_ratio lms ''right'' = Inr er"
    and "check_eye_coverage cvt im lms ''left'' = Inr cl"
    and "check_eye_coverage cvt im lms ''right'' = Inr cr"
  shows "\<exists>r. EyeVisibilityValidator_validate cvt v photo (Some fd) = Inr r"
proof -
  let ?c = "(eye_score el + eye_score er) / 2 * 0.7 + (cl + cr) / 2 * 0.3"
  from eye_scores_value [OF assms(5-8), of v]
  obtain valid msg det where sc: "eye_scores cvt v im lms = Inr (valid, ?c, msg, det)"
    by blast
  have "0 \<le> ?c \<and> ?c \<le> 1"
    using eye_score_bounds [of el] eye_score_bounds [of er]
      check_eye_coverage_bounds [OF assms(7)] check_eye_coverage_bounds [OF assms(8)]
    by argo
  then show ?thesis
    unfolding eye_validate_scores [OF assms(1-4)] sc
    by (simp add: bindE_def create_result_def ValidationResult_init_def)
qed

text \<open>
  C6. The eye visibility check, on a photo with image data and a detection with a face and
  non-empty landmarks, for a validator whose threshold lies in \<open>[0, 1]\<close>: if both eye aspect
  ratios are at least 0.25 and in each eye region (present, with a non-empty crop) the
  fraction of pixels brighter than 240 is at most 15 percent, the result has
  \<^verbatim>\<open>is_valid = True\<close>. If either eye aspect ratio is below 0.22, every result the check
  returns has \<^verbatim>\<open>is_valid = False\<close>, whatever the blended confidence, and the check does
  return a result whenever the two coverage computations return.
\<close>

theorem eye_visibility_pass_fail:
  assumes "validate_image_data photo = Inr im"
    and "face_found fd" and "landmarks fd = Some lms" and "lms \<noteq> []"
    and "0 \<le> threshold v" and "threshold v \<le> 1"
    and "calculate_eye_aspect_ratio lms ''left'' = Inr el"
    and "calculate_eye_aspect_ratio lms ''right'' = Inr er"
  shows "(el \<ge> 0.25 \<and> er \<ge> 0.25 \<and>
          (\<exists>x y w h. map_of lms ''left_eye_region'' = Some (LRegion x y w h) \<and>
             img_size (crop im x y w h) \<noteq> 0 \<and>
             eye_bright_ratio bgr2gray (crop im x y w h) \<le> 0.15) \<and>
          (\<exists>x y w h. map_of lms ''right_eye_region'' = Some (LRegion x y w h) \<and>
             img_size (crop im x y w h) \<noteq> 0 \<and>
             eye_bright_ratio bgr2gray (crop im x y w h) \<le> 0.15)
          \<longrightarrow> (\<exists>r. EyeVisibilityValidator_validate bgr2gray v photo (Some fd) = Inr r \<and>
                  is_valid r)) \<and>
         (el < 0.22 \<or> er < 0.22
          \<longrightarrow> (\<forall>r. EyeVisibilityValidator_validate bgr2gray v photo (Some fd) = Inr r
                    \<longrightarrow> \<not> is_valid r) \<and>
              ((\<exists>cl cr. check_eye_coverage bgr2gray im lms ''left'' = Inr cl \<and>
                        check_eye_coverage bgr2gray im lms ''right'' = Inr cr)
               \<longrightarrow> (\<exists>r. EyeVisibilityValidator_validate bgr2gray v photo (Some fd) = Inr r \<and>
                       \<not> is_valid r)))"
proof (intro conjI impI)
  assume a: "el \<ge> 0.25 \<and> er \<ge> 0.25 \<and>
          (\<exists>x y w h. map_of lms ''left_eye_region'' = Some (LRegion x y w h) \<and>
             img_size (crop im x y w h) \<noteq> 0 \<and>
             eye_bright_ratio bgr2gray (crop im x y w h) \<le> 0.15) \<and>
          (\<exists>x y w h. map_of lms ''right_eye_region'' = Some (LRegion x y w h) \<and>
             img_size (crop im x y w h) \<noteq> 0 \<and>
             eye_bright_ratio bgr2gray (crop im x y w h) \<le> 0.15)"
  then have e: "el \<ge> 0.25" "er \<ge> 0.25" by simp_all
  from a obtain x y w h where "map_of lms (''left'' @ ''_eye_region'') = Some (LRegion x y w h)"
    "img_size (crop im x y w h) \<noteq> 0" "eye_bright_ratio bgr2gray (crop im x y w h) \<le> 0.15"
    by auto
  then have l: "check_eye_coverage bgr2gray im lms ''left'' = Inr 1"
    by (rule check_eye_coverage_low_glare)
  from a obtain x y w h where "map_of lms (''right'' @ ''_eye_region'') = Some (LRegion x y w h)"
    "img_size (crop im x y w h) \<noteq> 0" "eye_bright_ratio bgr2gray (crop im x y w h) \<le> 0.15"
    by auto
  then have r: "check_eye_coverage bgr2gray im lms ''right'' = Inr 1"
    by (rule check_eye_coverage_low_glare)
  from eye_open_low_glare_passes [OF assms(1-4) assms(6) assms(7,8) e l r]
  show "\<exists>r. EyeVisibilityValidator_validate bgr2gray v photo (Some fd) = Inr r \<and> is_valid r"
    by blast
next
  assume c: "el < 0.22 \<or> er < 0.22"
  show "\<forall>r. EyeVisibilityValidator_validate bgr2gray v photo (Some fd) = Inr r \<longrightarrow> \<not> is_valid r"
    using eye_closed_fails [OF assms(1-4) assms(7,8) c] by blast
next
  assume c: "el < 0.22 \<or> er < 0.22"
    and "\<exists>cl cr. check_eye_coverage bgr2gray im lms ''left'' = Inr cl \<and>
                  check_eye_coverage bgr2gray im lms ''right'' = Inr cr"
  then obtain cl cr where "check_eye_coverage bgr2gray im lms ''left'' = Inr cl"
    "check_eye_coverage bgr2gray im lms ''right'' = Inr cr" by blast
  from eye_closed_returns [OF assms(1-4) assms(7,8) this, of v]
  obtain r where r: "EyeVisibilityValidator_validate bgr2gray v photo (Some fd) = Inr r" by blast
  with eye_closed_fails [OF assms(1-4) assms(7,8) c r]
  show "\<exists>r. EyeVisibilityValidator_validate bgr2gray v photo (Some fd) = Inr r \<and> \<not> is_valid r"
    by blast
qed


lemma sample_crops:
  "crop (Gray [[140, 140], [140, 140]]) 0 0 1 1 = Gray [[140]]"
  "crop (Gray [[140, 140], [140, 140]]) 1 0 1 1 = Gray [[140]]"
  by (simp_all add: crop_def py_slice_def)

lemma sample_bright_ratio: "eye_bright_ratio cvt (Gray [[140]]) = 0"
  by (simp add: eye_bright_ratio_def get_grayscale_image_def)

lemma sample_coverage:
  "check_eye_coverage cvt (Gray [[140, 140], [140, 140]]) open_eyes_landmarks ''left'' = Inr 1"
  "check_eye_coverage cvt (Gray [[140, 140], [140, 140]]) open_eyes_landmarks ''right'' = Inr 1"
  "check_eye_coverage cvt (Gray [[140, 140], [140, 140]]) closed_eye_landmarks ''left'' = Inr 1"
  "check_eye_coverage cvt (Gray [[140, 140], [140, 140]]) closed_eye_landmarks ''right'' = Inr 1"
  by (simp_all add: check_eye_coverage_def open_eyes_landmarks_def closed_eye_landmarks_def
        sample_crops sample_bright_ratio)

theorem eye_visibility_pass_fail_witness:
  "(\<exists>r. EyeVisibilityValidator_validate sample_bgr2gray default_eye (sample_photo [])
          (Some (face_with open_eyes_landmarks)) = Inr r \<and> is_valid r) \<and>
   (\<exists>r. EyeVisibilityValidator_validate sample_bgr2gray default_eye (sample_photo [])
          (Some (face_with closed_eye_landmarks)) = Inr r \<and> \<not> is_valid r)"
proof -
  let ?im = "Gray [[140, 140], [140, 140]]"
  have im: "validate_image_data (sample_photo []) = Inr ?im"
    by (simp add: sample_image_ok)
  have t: "0 \<le> threshold default_eye" "threshold default_eye \<le> 1"
    by (simp_all add: default_eye_def EYE_VISIBILITY_THRESHOLD_def)
  have fo: "face_found (face_with open_eyes_landmarks)"
    "landmarks (face_with open_eyes_landmarks) = Some open_eyes_landmarks"
    "open_eyes_landmarks \<noteq> []"
    by (simp_all add: face_with_def open_eyes_landmarks_def)
  have fc: "face_found (face_with closed_eye_landmarks)"
    "landmarks (face_with closed_eye_landmarks) = Some closed_eye_landmarks"
    "closed_eye_landmarks \<noteq> []"
    by (simp_all add: face_with_def closed_eye_landmarks_def)
  have eo: "calculate_eye_aspect_ratio open_eyes_landmarks ''left'' = Inr 0.3"
    "calculate_eye_aspect_ratio open_eyes_landmarks ''right'' = Inr 0.3"
    by (simp_all add: calculate_eye_aspect_ratio_def open_eyes_landmarks_def as_num_def)
  have ec: "calculate_eye_aspect_ratio closed_eye_landmarks ''left'' = Inr 0.175"
    "calculate_eye_aspect_ratio closed_eye_landmarks ''right'' = Inr 0.3"
    by (simp_all add: calculate_eye_aspect_ratio_def closed_eye_landmarks_def as_num_def)
  have ro: "map_of open_eyes_landmarks ''left_eye_region'' = Some (LRegion 0 0 1 1)"
    "map_of open_eyes_landmarks ''right_eye_region'' = Some (LRegion 1 0 1 1)"
    by (simp_all add: open_eyes_landmarks_def)
  have glare: "(\<exists>x y w h. map_of open_eyes_landmarks ''left_eye_region'' = Some (LRegion x y w h) \<and>
             img_size (crop ?im x y w h) \<noteq> 0 \<and>
             eye_bright_ratio sample_bgr2gray (crop ?im x y w h) \<le> 0.15) \<and>
          (\<exists>x y w h. map_of open_eyes_landmarks ''right_eye_region'' = Some (LRegion x y w h) \<and>
             img_size (crop ?im x y w h) \<noteq> 0 \<and>
             eye_bright_ratio sample_bgr2gray (crop ?im x y w h) \<le> 0.15)"
    by (simp add: ro sample_crops sample_bright_ratio)
  have A: "\<exists>r. EyeVisibilityValidator_validate sample_bgr2gray default_eye (sample_photo [])
          (Some (face_with open_eyes_landmarks)) = Inr r \<and> is_valid r"
    using eye_visibility_pass_fail [OF im fo t eo, of sample_bgr2gray] glare by simp
  have B: "\<exists>r. EyeVisibilityValidator_validate sample_bgr2gray default_eye (sample_photo [])
          (Some (face_with closed_eye_landmarks)) = Inr r \<and> \<not> is_valid r"
    using eye_visibility_pass_fail [OF im fc t ec, of sample_bgr2gray]
    by (simp add: sample_coverage)
  from A B show ?thesis by (intro conjI)
qed

end
